theory Spec2Isabelle
  imports Complex_Main
begin

section \<open>JavaScript values and strings\<close>

text \<open>
  Strings of the program are modelled as \<^typ>\<open>string\<close>. \<open>toLowerCase\<close> and \<open>trim\<close> act on
  the ASCII letters and the ASCII white space; every literal of \<open>app.js\<close> that the model
  compares against is ASCII.
\<close>

definition lower_char :: "char \<Rightarrow> char" where
  "lower_char c =
     (case map_of (zip ''ABCDEFGHIJKLMNOPQRSTUVWXYZ'' ''abcdefghijklmnopqrstuvwxyz'') c of
        Some l \<Rightarrow> l
      | None \<Rightarrow> c)"

definition toLowerCase :: "string \<Rightarrow> string" where
  "toLowerCase s = map lower_char s"

definition is_space :: "char \<Rightarrow> bool" where
  "is_space c = (c \<in> {CHR '' '', CHR 0x09, CHR 0x0A, CHR 0x0B, CHR 0x0C, CHR 0x0D})"

definition trim :: "string \<Rightarrow> string" where
  "trim s = rev (dropWhile is_space (rev (dropWhile is_space s)))"

definition is_digit :: "char \<Rightarrow> bool" where
  "is_digit c = (c \<in> set ''0123456789'')"

text \<open>\<open>Array.prototype.join\<close> on a list of strings.\<close>

fun join :: "string \<Rightarrow> string list \<Rightarrow> string" where
  "join sep [] = []"
| "join sep [x] = x"
| "join sep (x # y # ys) = x @ sep @ join sep (y # ys)"

text \<open>Decimal rendering of a number inside a template literal or by \<open>toString()\<close>.\<close>

definition digit_char :: "nat \<Rightarrow> char" where
  "digit_char n = ''0123456789'' ! (n mod 10)"

fun nat_to_string :: "nat \<Rightarrow> string" where
  "nat_to_string n =
     (if n < 10 then [digit_char n]
      else nat_to_string (n div 10) @ [digit_char n])"

definition int_to_string :: "int \<Rightarrow> string" where
  "int_to_string i = (if i < 0 then CHR ''-'' # nat_to_string (nat (- i)) else nat_to_string (nat i))"

text \<open>
  A JavaScript number as far as \<open>parseFloat(s) > 0.7\<close> needs it. \<open>parseFloat\<close> is a
  built-in and a parameter of the model. It returns a double; the literal \<open>0.7\<close> denotes the
  double nearest to 7/10, which lies below 7/10 while its successor lies above, so a double
  exceeds the literal exactly when its value exceeds 7/10. Every comparison with \<open>NaN\<close> is
  false.
\<close>

datatype js_number = NaN | Num rat | PosInfinity | NegInfinity

fun js_gt :: "js_number \<Rightarrow> rat \<Rightarrow> bool" where
  "js_gt NaN q = False"
| "js_gt (Num x) q = (x > q)"
| "js_gt PosInfinity q = True"
| "js_gt NegInfinity q = False"

section \<open>The email validation gateway: \<open>validateEmail\<close>\<close>

text \<open>
  A field of \<open>response.data\<close> is either a value whose \<open>typeof\<close> is \<open>"string"\<close> or anything
  else (a number, \<open>null\<close>, \<open>undefined\<close>, an object).
\<close>

datatype js_value = JString string | JOther

record api_data =
  deliverability :: js_value
  quality_score :: js_value

text \<open>
  What \<open>error.response\<close> of a rejected axios call holds: \<open>response.data\<close> is nullish
  (\<open>NoData\<close>), or it is an object and \<open>Data s\<close> carries what string concatenation makes
  of \<open>data.error\<close> (\<open>''undefined''\<close> when the field is absent).
\<close>

datatype error_response = NoData | Data string

text \<open>
  What \<open>await axios.get(...)\<close> does: it resolves with \<open>response.data\<close> (\<open>None\<close> when the
  value is falsy), or it rejects with an error that has a \<open>message\<close> and, for an HTTP error
  status, a \<open>response\<close>.
\<close>

datatype axios_result =
    Resolved "api_data option"
  | Rejected "error_response option" string

text \<open>What is thrown inside the \<open>try\<close> block of \<open>validateEmail\<close>.\<close>

datatype thrown = PlainError string | AxiosError "error_response option" string

text \<open>An exception leaving a function, with its \<open>message\<close>.\<close>

datatype js_error = Error string | TypeError string

fun error_message :: "js_error \<Rightarrow> string" where
  "error_message (Error m) = m"
| "error_message (TypeError m) = m"

record validation_result =
  isValid :: bool
  message :: string

text \<open>The body of the \<open>try\<close> block (lines 90 to 103).\<close>

definition validateEmail_try :: "(string \<Rightarrow> js_number) \<Rightarrow> axios_result \<Rightarrow> thrown + validation_result" where
  "validateEmail_try parseFloat r =
     (case r of
        Rejected resp m \<Rightarrow> Inl (AxiosError resp m)
      | Resolved None \<Rightarrow> Inl (PlainError ''Invalid API response format'')
      | Resolved (Some d) \<Rightarrow>
          (case (deliverability d, quality_score d) of
             (JString dl, JString qs) \<Rightarrow>
               (let v = (dl = ''DELIVERABLE'' \<and> js_gt (parseFloat qs) (7 / 10)) in
                Inr \<lparr> isValid = v,
                      message = (if v then ''Email validated''
                                 else ''Email '' @ toLowerCase dl @ '' (Quality: '' @ qs @ '')'') \<rparr>)
           | _ \<Rightarrow> Inl (PlainError ''Invalid API response format'')))"

text \<open>
  The \<open>catch\<close> block (lines 104 to 107): it always throws again. Reading \<open>.error\<close> of a
  nullish \<open>error.response.data\<close> is a \<open>TypeError\<close> of the engine.
\<close>

fun validateEmail_catch :: "thrown \<Rightarrow> js_error" where
  "validateEmail_catch (PlainError m) = Error (''Failed to validate email: '' @ m)"
| "validateEmail_catch (AxiosError None m) = Error (''Failed to validate email: '' @ m)"
| "validateEmail_catch (AxiosError (Some (Data s)) m) = Error (''Failed to validate email: '' @ s)"
| "validateEmail_catch (AxiosError (Some NoData) m) =
     TypeError ''Cannot read properties of undefined (reading error)''"

definition validateEmail :: "(string \<Rightarrow> js_number) \<Rightarrow> axios_result \<Rightarrow> js_error + validation_result" where
  "validateEmail parseFloat r =
     (case validateEmail_try parseFloat r of
        Inl t \<Rightarrow> Inl (validateEmail_catch t)
      | Inr v \<Rightarrow> Inr v)"

text \<open>
  The response shape the source accepts (line 95): \<open>data\<close> is truthy and both fields are
  strings.
\<close>

fun well_formed :: "axios_result \<Rightarrow> bool" where
  "well_formed (Resolved (Some d)) =
     (case (deliverability d, quality_score d) of (JString dl, JString qs) \<Rightarrow> True | _ \<Rightarrow> False)"
| "well_formed _ = False"

section \<open>The record and its schema (\<open>models/User.js\<close>)\<close>

text \<open>
  A \<open>Date\<close> is the number of milliseconds since the epoch. A stored document has the paths
  the schema declares, the \<open>_id\<close> (\<open>uid\<close>) and the \<open>updatedAt\<close> stamp that
  \<open>timestamps: true\<close> maintains.
\<close>

type_synonym timestamp = int

record user =
  uid :: nat
  name :: string
  email :: string
  dob :: timestamp
  contact :: string
  state :: string
  country :: string
  createdAt :: timestamp
  updatedAt :: timestamp
  validationStatus :: "string option"

type_synonym store = "user list"

text \<open>
  What the program reads from outside itself, as parameters of the model: the built-ins
  \<open>parseFloat\<close> and \<open>Date\<close>, the validators \<open>isEmail\<close> and \<open>isDate\<close> of express-validator,
  the store's regular expression matching, the deliverability service, the clock and the
  process environment.
  \<^item> \<open>gateway a\<close> is what \<open>axios.get\<close> does for the address \<open>a\<close>;
  \<^item> \<open>toDate s\<close> is \<open>new Date(s)\<close>, \<open>None\<close> for an invalid date;
  \<^item> \<open>now\<close> is the clock, \<open>minDate\<close> is
    \<open>new Date(today.getFullYear() - 120, today.getMonth(), today.getDate())\<close>;
  \<^item> \<open>regex_i p\<close> is the filter \<open>{$regex: p, $options: 'i'}\<close>, \<open>None\<close> when the store
    rejects the pattern;
  \<^item> \<open>env_ADMIN_USER\<close> and \<open>env_ADMIN_PASS\<close> are \<open>process.env.ADMIN_USER\<close> and
    \<open>process.env.ADMIN_PASS\<close>.
  The store itself is always reachable in this model.
\<close>

record env =
  parseFloat :: "string \<Rightarrow> js_number"
  gateway :: "string \<Rightarrow> axios_result"
  isEmail :: "string \<Rightarrow> bool"
  isDate :: "string \<Rightarrow> bool"
  toDate :: "string \<Rightarrow> timestamp option"
  now :: timestamp
  minDate :: timestamp
  regex_i :: "string \<Rightarrow> (string \<Rightarrow> bool) option"
  env_ADMIN_USER :: "string option"
  env_ADMIN_PASS :: "string option"

text \<open>\<open>process.env.X || d\<close>: an unset or empty variable gives the default.\<close>

definition or_string :: "string option \<Rightarrow> string \<Rightarrow> string" where
  "or_string v d = (case v of None \<Rightarrow> d | Some s \<Rightarrow> if s = [] then d else s)"

definition ADMIN_USER :: "env \<Rightarrow> string" where
  "ADMIN_USER e = or_string (env_ADMIN_USER e) ''admin''"

definition ADMIN_PASSWORD :: "env \<Rightarrow> string" where
  "ADMIN_PASSWORD e = or_string (env_ADMIN_PASS e) ''admin123''"

text \<open>
  \<open>req.body\<close> after the body parsers: each of the six fields is a string or \<open>undefined\<close>.
\<close>

record form_body =
  body_name :: "string option"
  body_email :: "string option"
  body_dob :: "string option"
  body_contact :: "string option"
  body_state :: "string option"
  body_country :: "string option"

subsection \<open>Schema validators\<close>

text \<open>The pattern \<open>/^[0-9]{10}$/\<close>.\<close>

definition ten_digits :: "string \<Rightarrow> bool" where
  "ten_digits s = (length s = 10 \<and> list_all is_digit s)"

text \<open>
  The pattern \<open>/^[^\s@]+@[^\s@]+\.[^\s@]+$/\<close>: the part before the first \<open>@\<close> is not
  empty, no other character is white space or \<open>@\<close>, and the part after the \<open>@\<close> has a dot
  that is neither its first nor its last character.
\<close>

definition email_char :: "char \<Rightarrow> bool" where
  "email_char c = (\<not> is_space c \<and> c \<noteq> CHR ''@'')"

definition schema_email_match :: "string \<Rightarrow> bool" where
  "schema_email_match s =
     (let local = takeWhile (\<lambda>c. c \<noteq> CHR ''@'') s;
          rest = dropWhile (\<lambda>c. c \<noteq> CHR ''@'') s
      in local \<noteq> [] \<and> list_all email_char local \<and>
         (case rest of
            [] \<Rightarrow> False
          | _ # host \<Rightarrow> list_all email_char host \<and> CHR ''.'' \<in> set (butlast (tl host))))"

text \<open>
  One schema path checked on a cast value: \<open>Inl\<close> the message of the first validator that
  fails, \<open>Inr\<close> the value after the path's setters (\<open>trim\<close>, \<open>lowercase\<close>).
\<close>

definition check_text :: "string \<Rightarrow> string \<Rightarrow> string \<Rightarrow> string option \<Rightarrow> string + string" where
  "check_text required_msg min_msg max_msg v =
     (case v of
        None \<Rightarrow> Inl required_msg
      | Some s \<Rightarrow>
          (let t = trim s in
           if t = [] then Inl required_msg
           else if length t < 2 then Inl min_msg
           else if length t > 50 then Inl max_msg
           else Inr t))"

definition check_name :: "string option \<Rightarrow> string + string" where
  "check_name v = check_text ''Name is required'' ''Name must be at least 2 characters''
     ''Name cannot exceed 50 characters'' v"

definition check_state :: "string option \<Rightarrow> string + string" where
  "check_state v = check_text ''State is required'' ''State must be at least 2 characters''
     ''State cannot exceed 50 characters'' v"

definition check_country :: "string option \<Rightarrow> string + string" where
  "check_country v = check_text ''Country is required'' ''Country must be at least 2 characters''
     ''Country cannot exceed 50 characters'' v"

definition check_email :: "string option \<Rightarrow> string + string" where
  "check_email v =
     (case v of
        None \<Rightarrow> Inl ''Email is required''
      | Some s \<Rightarrow>
          (let t = toLowerCase (trim s) in
           if t = [] then Inl ''Email is required''
           else if \<not> schema_email_match t then Inl ''Please enter a valid email address''
           else Inr t))"

definition dob_in_range :: "env \<Rightarrow> timestamp \<Rightarrow> bool" where
  "dob_in_range e v = (v \<le> now e \<and> v \<ge> minDate e)"

definition check_dob_value :: "env \<Rightarrow> timestamp option \<Rightarrow> string + timestamp" where
  "check_dob_value e v =
     (case v of
        None \<Rightarrow> Inl ''Cast to date failed''
      | Some t \<Rightarrow>
          if dob_in_range e t then Inr t
          else Inl ''Date of birth must be valid and not in the future or more than 120 years ago'')"

definition check_dob :: "env \<Rightarrow> string option \<Rightarrow> string + timestamp" where
  "check_dob e v =
     (case v of
        None \<Rightarrow> Inl ''Date of birth is required''
      | Some s \<Rightarrow>
          if s = [] then Inl ''Date of birth is required''
          else check_dob_value e (toDate e s))"

definition check_contact :: "string option \<Rightarrow> string + string" where
  "check_contact v =
     (case v of
        None \<Rightarrow> Inl ''Contact number is required''
      | Some s \<Rightarrow>
          if s = [] then Inl ''Contact number is required''
          else if \<not> ten_digits s then Inl ''Contact number must be a valid 10-digit number''
          else Inr s)"

text \<open>The error a path contributes to a \<open>ValidationError\<close>, as (path, message).\<close>

definition path_error :: "string \<Rightarrow> string + 'a \<Rightarrow> (string \<times> string) list" where
  "path_error p r = (case r of Inl m \<Rightarrow> [(p, m)] | Inr _ \<Rightarrow> [])"

definition validation_message :: "string \<Rightarrow> (string \<times> string) list \<Rightarrow> string" where
  "validation_message prefix errs = prefix @ join '', '' (map (\<lambda>(p, m). p @ '': '' @ m) errs)"

subsection \<open>Creating a document: \<open>new User({...}).save()\<close>\<close>

text \<open>
  The document is cast and validated path by path; when every path passes, the \<open>Inr\<close> is the
  document with the defaults of the schema (\<open>createdAt\<close>) and the stamp \<open>updatedAt\<close>.
  \<open>vs\<close> is the \<open>validationStatus\<close> given to the constructor, \<open>None\<close> being the schema's
  default \<open>null\<close>.
\<close>

definition validated_document ::
  "env \<Rightarrow> nat \<Rightarrow> form_body \<Rightarrow> string option \<Rightarrow> (string \<times> string) list + user" where
  "validated_document e i b vs =
     (let rn = check_name (body_name b);
          rm = check_email (body_email b);
          rd = check_dob e (body_dob b);
          rc = check_contact (body_contact b);
          rs = check_state (body_state b);
          rk = check_country (body_country b)
      in case (rn, rm, rd, rc, rs, rk) of
           (Inr n, Inr m, Inr d, Inr c, Inr s, Inr k) \<Rightarrow>
             Inr \<lparr> uid = i, name = n, email = m, dob = d, contact = c, state = s, country = k,
                   createdAt = now e, updatedAt = now e, validationStatus = vs \<rparr>
         | _ \<Rightarrow>
             Inl (path_error ''name'' rn @ path_error ''email'' rm @ path_error ''dob'' rd @
                  path_error ''contact'' rc @ path_error ''state'' rs @ path_error ''country'' rk))"

definition fresh_id :: "store \<Rightarrow> nat" where
  "fresh_id st = Suc (fold max (map uid st) 0)"

text \<open>
  \<open>save\<close>: a validation failure rejects with a \<open>ValidationError\<close>; the unique index on
  \<open>email\<close> rejects a second document with a stored address, which the \<open>post('save')\<close> hook
  turns into \<open>Email already exists\<close>.
\<close>

definition save :: "env \<Rightarrow> store \<Rightarrow> form_body \<Rightarrow> string option \<Rightarrow> js_error + (store \<times> user)" where
  "save e st b vs =
     (case validated_document e (fresh_id st) b vs of
        Inl errs \<Rightarrow> Inl (Error (validation_message ''User validation failed: '' errs))
      | Inr u \<Rightarrow>
          if email u \<in> set (map email st) then Inl (Error ''Email already exists'')
          else Inr (st @ [u], u))"

subsection \<open>Reading and updating by id\<close>

text \<open>
  \<open>req.params.id\<close> is \<open>Some i\<close> when the string is an ObjectId and \<open>None\<close> when it is not,
  in which case the query rejects with a \<open>CastError\<close>.
\<close>

definition findById :: "store \<Rightarrow> nat option \<Rightarrow> js_error + user option" where
  "findById st i =
     (case i of
        None \<Rightarrow> Inl (Error ''Cast to ObjectId failed'')
      | Some k \<Rightarrow> Inr (find (\<lambda>u. uid u = k) st))"

text \<open>
  The update object given to \<open>findByIdAndUpdate\<close>: a path is \<open>None\<close> when the object does
  not have it. \<open>upd_dob = Some None\<close> is an invalid \<open>Date\<close>.
\<close>

record update_data =
  upd_name :: "string option"
  upd_email :: "string option"
  upd_dob :: "timestamp option option"
  upd_contact :: "string option"
  upd_state :: "string option"
  upd_country :: "string option"
  upd_validationStatus :: "string option"

definition set_path :: "'a option \<Rightarrow> 'a \<Rightarrow> 'a" where
  "set_path v old = (case v of None \<Rightarrow> old | Some x \<Rightarrow> x)"

text \<open>The \<open>$set\<close> on one document, with the setters of the schema and the \<open>updatedAt\<close> stamp.\<close>

definition apply_update :: "env \<Rightarrow> update_data \<Rightarrow> user \<Rightarrow> user" where
  "apply_update e upd u =
     u \<lparr> name := set_path (map_option trim (upd_name upd)) (name u),
         email := set_path (map_option (\<lambda>s. toLowerCase (trim s)) (upd_email upd)) (email u),
         dob := (case upd_dob upd of Some (Some t) \<Rightarrow> t | _ \<Rightarrow> dob u),
         contact := set_path (upd_contact upd) (contact u),
         state := set_path (map_option trim (upd_state upd)) (state u),
         country := set_path (map_option trim (upd_country upd)) (country u),
         validationStatus := (case upd_validationStatus upd of
                                None \<Rightarrow> validationStatus u
                              | Some m \<Rightarrow> Some m),
         updatedAt := now e \<rparr>"

text \<open>The update validators (\<open>runValidators: true\<close>) of the paths the update sets.\<close>

definition present_error :: "string \<Rightarrow> 'b option \<Rightarrow> ('b option \<Rightarrow> string + 'a) \<Rightarrow> (string \<times> string) list" where
  "present_error p v chk = (case v of None \<Rightarrow> [] | Some x \<Rightarrow> path_error p (chk (Some x)))"

definition update_errors :: "env \<Rightarrow> update_data \<Rightarrow> (string \<times> string) list" where
  "update_errors e upd =
     present_error ''name'' (upd_name upd) check_name @
     present_error ''email'' (upd_email upd) check_email @
     (case upd_dob upd of None \<Rightarrow> [] | Some t \<Rightarrow> path_error ''dob'' (check_dob_value e t)) @
     present_error ''contact'' (upd_contact upd) check_contact @
     present_error ''state'' (upd_state upd) check_state @
     present_error ''country'' (upd_country upd) check_country"

definition findByIdAndUpdate ::
  "env \<Rightarrow> store \<Rightarrow> nat option \<Rightarrow> update_data \<Rightarrow> bool \<Rightarrow> js_error + (store \<times> user option)" where
  "findByIdAndUpdate e st i upd runValidators =
     (case i of
        None \<Rightarrow> Inl (Error ''Cast to ObjectId failed'')
      | Some k \<Rightarrow>
          if upd_dob upd = Some None then Inl (Error ''Cast to date failed'')
          else if runValidators \<and> update_errors e upd \<noteq> []
            then Inl (Error (validation_message ''Validation failed: '' (update_errors e upd)))
          else
            (case find (\<lambda>u. uid u = k) st of
               None \<Rightarrow> Inr (st, None)
             | Some u \<Rightarrow>
                 (let u' = apply_update e upd u in
                  if email u' \<in> set (map email (filter (\<lambda>v. uid v \<noteq> k) st))
                    then Inl (Error ''E11000 duplicate key error'')
                  else Inr (map (\<lambda>v. if uid v = k then u' else v) st, Some u'))))"

definition findByIdAndDelete :: "store \<Rightarrow> nat option \<Rightarrow> js_error + (store \<times> user option)" where
  "findByIdAndDelete st i =
     (case i of
        None \<Rightarrow> Inl (Error ''Cast to ObjectId failed'')
      | Some k \<Rightarrow>
          (case find (\<lambda>u. uid u = k) st of
             None \<Rightarrow> Inr (st, None)
           | Some u \<Rightarrow> Inr (filter (\<lambda>v. uid v \<noteq> k) st, Some u)))"

text \<open>
  \<open>find(query).skip(skip).limit(limit)\<close> on the documents that match: the store rejects a
  negative \<open>skip\<close>; the driver sends a negative \<open>limit\<close> as its absolute value, and a
  \<open>limit\<close> of \<open>0\<close> is no limit.
\<close>

definition skip_limit :: "user list \<Rightarrow> int \<Rightarrow> int \<Rightarrow> js_error + user list" where
  "skip_limit xs skip limit =
     (if skip < 0 then Inl (Error ''skip value must be non-negative'')
      else if limit = 0 then Inr (drop (nat skip) xs)
      else Inr (take (nat \<bar>limit\<bar>) (drop (nat skip) xs)))"

text \<open>\<open>Math.ceil(total / limit)\<close> for a count \<open>total\<close> and a \<open>limit\<close> other than \<open>0\<close>.\<close>

definition ceil_div :: "int \<Rightarrow> int \<Rightarrow> int" where
  "ceil_div tot limit = - ((- tot) div limit)"

section \<open>Requests and responses\<close>

text \<open>The label and value lists of one chart.\<close>

record series =
  labels :: "string list"
  data :: "nat list"

text \<open>The locals of the \<open>dashboard\<close> view.\<close>

record dashboard =
  totalUsers :: nat
  usersOverTime :: series
  usersByCountry :: series
  ageDistribution :: series
  topStates :: series
  recentUsers :: "user list"

text \<open>
  What a handler answers. The first argument of a rendering or JSON constructor is the HTTP
  status. \<open>res.redirect\<close> always answers 302, also after \<open>res.status(404)\<close>.
  \<^item> \<open>RenderIndex status error success validationMessage\<close>
  \<^item> \<open>RenderUsers status users page totalPages error\<close>
  \<^item> \<open>JsonUsers status users page totalPages totalUsers error\<close>
  \<^item> \<open>JsonValidation status isValid message\<close>
  \<^item> \<open>JsonErrors\<close> is \<open>{errors: errors.array()}\<close>, each error as (field, message)
  \<^item> \<open>SendCsv fields rows\<close> is the attachment \<open>users.csv\<close>
  \<^item> \<open>TooManyRequests\<close> is the answer 429 of the rate limiter
  \<^item> \<open>Unhandled\<close> is the rejection of a handler outside every \<open>try\<close>.
\<close>

datatype response =
    Redirect string
  | RenderIndex nat "string option" "string option" "string option"
  | RenderAbout
  | RenderAdmin "string option"
  | RenderUsers nat "user list" int int "string option"
  | RenderCreate
  | RenderEdit nat user "string option"
  | RenderDashboard dashboard
  | JsonValidation nat bool string
  | JsonUsers nat "user list" int int nat "string option"
  | JsonUser nat user
  | JsonError nat string
  | JsonErrors nat "(string \<times> string) list"
  | NoContent
  | SendCsv "string list" "user list"
  | TooManyRequests
  | Unhandled js_error

text \<open>
  The query of the two list routes, with \<open>parseInt\<close> already applied: \<open>None\<close> is \<open>NaN\<close> (the
  parameter is absent or does not start with a number).
\<close>

record list_query =
  q_page :: "int option"
  q_limit :: "int option"
  q_search :: "string option"

text \<open>\<open>parseInt(x) || d\<close>: \<open>NaN\<close> and \<open>0\<close> are falsy.\<close>

definition or_default :: "int option \<Rightarrow> int \<Rightarrow> int" where
  "or_default p d = (case p of None \<Rightarrow> d | Some n \<Rightarrow> if n = 0 then d else n)"

text \<open>A string in a condition: \<open>undefined\<close> and the empty string are falsy.\<close>

definition truthy :: "string option \<Rightarrow> string option" where
  "truthy v = (case v of None \<Rightarrow> None | Some s \<Rightarrow> if s = [] then None else Some s)"

text \<open>\<open>err.message || d\<close>.\<close>

definition or_else :: "string \<Rightarrow> string \<Rightarrow> string" where
  "or_else s d = (if s = [] then d else s)"

section \<open>The express-validator chains\<close>

text \<open>The string express-validator checks: an absent field counts as the empty string.\<close>

definition field_string :: "string option \<Rightarrow> string" where
  "field_string v = (case v of None \<Rightarrow> [] | Some s \<Rightarrow> s)"

definition fails :: "bool \<Rightarrow> string \<Rightarrow> string \<Rightarrow> (string \<times> string) list" where
  "fails ok field msg = (if ok then [] else [(field, msg)])"

text \<open>
  The chain of \<open>POST /submit\<close>, \<open>POST /api/users\<close> and \<open>POST /update/:id\<close>: the errors in
  the order of the chain.
\<close>

definition submission_errors :: "env \<Rightarrow> form_body \<Rightarrow> (string \<times> string) list" where
  "submission_errors e b =
     fails (trim (field_string (body_name b)) \<noteq> []) ''name'' ''Name is required'' @
     fails (isEmail e (field_string (body_email b))) ''email'' ''Invalid email address'' @
     fails (isDate e (field_string (body_dob b))) ''dob'' ''Invalid date of birth'' @
     fails (ten_digits (field_string (body_contact b))) ''contact''
       ''Contact must be a valid 10-digit number'' @
     fails (trim (field_string (body_state b)) \<noteq> []) ''state'' ''State is required'' @
     fails (trim (field_string (body_country b)) \<noteq> []) ''country'' ''Country is required''"

text \<open>The chain of \<open>PUT /api/users/:id\<close>: \<open>optional()\<close> skips a field that is \<open>undefined\<close>.\<close>

definition optional_fails :: "string option \<Rightarrow> (string \<Rightarrow> bool) \<Rightarrow> string \<Rightarrow> string \<Rightarrow> (string \<times> string) list" where
  "optional_fails v ok field msg = (case v of None \<Rightarrow> [] | Some s \<Rightarrow> fails (ok s) field msg)"

definition optional_errors :: "env \<Rightarrow> form_body \<Rightarrow> (string \<times> string) list" where
  "optional_errors e b =
     optional_fails (body_name b) (\<lambda>s. trim s \<noteq> []) ''name'' ''Name is required'' @
     optional_fails (body_email b) (isEmail e) ''email'' ''Invalid email address'' @
     optional_fails (body_dob b) (isDate e) ''dob'' ''Invalid date of birth'' @
     optional_fails (body_contact b) ten_digits ''contact''
       ''Contact must be a valid 10-digit number'' @
     optional_fails (body_state b) (\<lambda>s. trim s \<noteq> []) ''state'' ''State is required'' @
     optional_fails (body_country b) (\<lambda>s. trim s \<noteq> []) ''country'' ''Country is required''"

text \<open>The sanitizer \<open>trim()\<close> of the chains writes the trimmed value back into \<open>req.body\<close>.\<close>

definition sanitize :: "form_body \<Rightarrow> form_body" where
  "sanitize b =
     b \<lparr> body_name := map_option trim (body_name b),
         body_state := map_option trim (body_state b),
         body_country := map_option trim (body_country b) \<rparr>"

text \<open>\<open>errors.array().map((e) => e.msg).join(", ")\<close>.\<close>

definition joined_messages :: "(string \<times> string) list \<Rightarrow> string" where
  "joined_messages errs = join '', '' (map snd errs)"

section \<open>The handlers of \<open>app.js\<close>\<close>

text \<open>
  A handler that touches the store takes it and returns it with its response. The guard
  \<open>ensureAdmin\<close> is applied where the routes are registered, in \<open>admin_route\<close> below.
\<close>

subsection \<open>\<open>GET /api/validate-email\<close> (lines 111 to 121)\<close>

definition get_api_validate_email :: "env \<Rightarrow> string option \<Rightarrow> response" where
  "get_api_validate_email e q =
     (case truthy q of
        None \<Rightarrow> JsonValidation 400 False ''Email is required''
      | Some a \<Rightarrow>
          (case validateEmail (parseFloat e) (gateway e a) of
             Inr r \<Rightarrow> JsonValidation 200 (isValid r) (message r)
           | Inl err \<Rightarrow>
               JsonValidation 500 False (''Validation service unavailable: '' @ error_message err)))"

subsection \<open>The JSON API (lines 124 to 251)\<close>

text \<open>
  The documents that match the query of lines 131 to 136, in the order of the store: all of
  them for an empty \<open>search\<close>, else those whose \<open>name\<close> matches the pattern; \<open>None\<close> when
  the store rejects the pattern.
\<close>

definition find_query :: "env \<Rightarrow> string \<Rightarrow> store \<Rightarrow> user list option" where
  "find_query e search st =
     (if search \<noteq> [] then map_option (\<lambda>m. filter (\<lambda>u. m (name u)) st) (regex_i e search)
      else Some st)"

text \<open>\<open>req.query.search ? req.query.search.trim() : ''\<close>.\<close>

definition search_of :: "list_query \<Rightarrow> string" where
  "search_of q = (case truthy (q_search q) of None \<Rightarrow> [] | Some s \<Rightarrow> trim s)"

definition get_api_users :: "env \<Rightarrow> list_query \<Rightarrow> store \<Rightarrow> response" where
  "get_api_users e q st =
     (let page = or_default (q_page q) 1;
          limit = or_default (q_limit q) 50;
          skip = (page - 1) * limit;
          search = search_of q;
          failed = JsonUsers 500 [] 1 1 0 (Some ''Error fetching users'')
      in case find_query e search st of
           None \<Rightarrow> failed
         | Some matching \<Rightarrow>
             (case skip_limit matching skip limit of
                Inl err \<Rightarrow> failed
              | Inr users \<Rightarrow>
                  JsonUsers 200 users page (ceil_div (int (length matching)) limit)
                    (length matching) None))"

definition get_api_user :: "nat option \<Rightarrow> store \<Rightarrow> response" where
  "get_api_user i st =
     (case findById st i of
        Inl err \<Rightarrow> JsonError 500 ''Error fetching user''
      | Inr None \<Rightarrow> JsonError 404 ''User not found''
      | Inr (Some u) \<Rightarrow> JsonUser 200 u)"

definition post_api_users :: "env \<Rightarrow> form_body \<Rightarrow> store \<Rightarrow> store \<times> response" where
  "post_api_users e b st =
     (case submission_errors e b of
        x # xs \<Rightarrow> (st, JsonErrors 400 (x # xs))
      | [] \<Rightarrow>
          (case save e st (sanitize b) None of
             Inl err \<Rightarrow> (st, JsonError 500 (or_else (error_message err) ''Error creating user''))
           | Inr (st', u) \<Rightarrow> (st', JsonUser 201 u)))"

text \<open>The object \<open>updateData\<close> of lines 215 to 221.\<close>

definition put_updateData :: "env \<Rightarrow> form_body \<Rightarrow> update_data" where
  "put_updateData e b =
     \<lparr> upd_name = truthy (body_name b),
       upd_email = truthy (body_email b),
       upd_dob = map_option (toDate e) (truthy (body_dob b)),
       upd_contact = truthy (body_contact b),
       upd_state = truthy (body_state b),
       upd_country = truthy (body_country b),
       upd_validationStatus = None \<rparr>"

definition put_api_user :: "env \<Rightarrow> nat option \<Rightarrow> form_body \<Rightarrow> store \<Rightarrow> store \<times> response" where
  "put_api_user e i b st =
     (case optional_errors e b of
        x # xs \<Rightarrow> (st, JsonErrors 400 (x # xs))
      | [] \<Rightarrow>
          (case findByIdAndUpdate e st i (put_updateData e (sanitize b)) False of
             Inl err \<Rightarrow> (st, JsonError 500 (or_else (error_message err) ''Error updating user''))
           | Inr (st', None) \<Rightarrow> (st', JsonError 404 ''User not found'')
           | Inr (st', Some u) \<Rightarrow> (st', JsonUser 200 u)))"

definition delete_api_user :: "nat option \<Rightarrow> store \<Rightarrow> store \<times> response" where
  "delete_api_user i st =
     (case findByIdAndDelete st i of
        Inl err \<Rightarrow> (st, JsonError 500 ''Error deleting user'')
      | Inr (st', None) \<Rightarrow> (st', JsonError 404 ''User not found'')
      | Inr (st', Some u) \<Rightarrow> (st', NoContent))"

definition delete_api_users :: "store \<Rightarrow> store \<times> response" where
  "delete_api_users st = ([], NoContent)"

subsection \<open>\<open>POST /submit\<close> (lines 262 to 305)\<close>

text \<open>Lines 298 to 303: the save, with the \<open>validationStatus\<close> the gateway check left.\<close>

definition submit_save :: "env \<Rightarrow> form_body \<Rightarrow> store \<Rightarrow> string \<Rightarrow> store \<times> response" where
  "submit_save e b st validationMessage =
     (case save e st b (Some validationMessage) of
        Inr (st', u) \<Rightarrow>
          (st', RenderIndex 200 None (Some ''Form submitted successfully!'') (Some validationMessage))
      | Inl err \<Rightarrow>
          (st, RenderIndex 200 (Some (''Server error: '' @ error_message err)) None None))"

definition post_submit :: "env \<Rightarrow> form_body \<Rightarrow> store \<Rightarrow> store \<times> response" where
  "post_submit e b0 st =
     (case submission_errors e b0 of
        x # xs \<Rightarrow> (st, RenderIndex 200 (Some (joined_messages (x # xs))) None None)
      | [] \<Rightarrow>
          (let b = sanitize b0 in
           case validateEmail (parseFloat e) (gateway e (field_string (body_email b))) of
             Inr r \<Rightarrow>
               if \<not> isValid r then (st, RenderIndex 200 (Some (message r)) None None)
               else submit_save e b st (message r)
           | Inl err \<Rightarrow> submit_save e b st ''Validation unavailable''))"

subsection \<open>The rendered admin pages (lines 307 to 460)\<close>

definition get_users :: "int option \<Rightarrow> store \<Rightarrow> response" where
  "get_users p st =
     (let page = or_default p 1;
          limit = 10;
          skip = (page - 1) * limit
      in case skip_limit st skip limit of
           Inl err \<Rightarrow> RenderUsers 200 [] 1 1 (Some ''Error loading users. Please try again.'')
         | Inr users \<Rightarrow> RenderUsers 200 users page (ceil_div (int (length st)) limit) None)"

definition get_delete_all :: "store \<Rightarrow> store \<times> response" where
  "get_delete_all st = ([], Redirect ''/users'')"

definition export_fields :: "string list" where
  "export_fields = [''name'', ''email'', ''dob'', ''contact'', ''state'', ''country'', ''createdAt'',
     ''validationStatus'']"

definition get_export :: "store \<Rightarrow> response" where
  "get_export st = SendCsv export_fields st"

definition get_edit :: "nat option \<Rightarrow> store \<Rightarrow> response" where
  "get_edit i st =
     (case findById st i of
        Inl err \<Rightarrow> Redirect ''/users''
      | Inr None \<Rightarrow> Redirect ''/users''
      | Inr (Some u) \<Rightarrow> RenderEdit 200 u None)"

text \<open>
  The object \<open>updateData\<close> of lines 428 to 436. A field that is \<open>undefined\<close> is no part of
  the update; \<open>new Date(undefined)\<close> is an invalid date.
\<close>

definition update_updateData :: "env \<Rightarrow> form_body \<Rightarrow> string \<Rightarrow> update_data" where
  "update_updateData e b validationMessage =
     \<lparr> upd_name = body_name b,
       upd_email = body_email b,
       upd_dob = Some (case body_dob b of None \<Rightarrow> None | Some s \<Rightarrow> toDate e s),
       upd_contact = body_contact b,
       upd_state = body_state b,
       upd_country = body_country b,
       upd_validationStatus = Some validationMessage \<rparr>"

text \<open>The \<open>catch\<close> block of lines 440 to 448; its \<open>findById\<close> stands outside every \<open>try\<close>.\<close>

definition update_catch :: "nat option \<Rightarrow> store \<Rightarrow> js_error \<Rightarrow> response" where
  "update_catch i st err =
     (case findById st i of
        Inl err' \<Rightarrow> Unhandled err'
      | Inr None \<Rightarrow> Redirect ''/users''
      | Inr (Some u) \<Rightarrow>
          RenderEdit 500 u
            (Some (''Failed to update user: '' @ or_else (error_message err) ''Internal server error'')))"

text \<open>Lines 428 to 439: the update, with the \<open>validationStatus\<close> the gateway check left.\<close>

definition update_write :: "env \<Rightarrow> nat option \<Rightarrow> form_body \<Rightarrow> store \<Rightarrow> string \<Rightarrow> store \<times> response" where
  "update_write e i b st validationMessage =
     (case findByIdAndUpdate e st i (update_updateData e b validationMessage) True of
        Inl err \<Rightarrow> (st, update_catch i st err)
      | Inr (st', r) \<Rightarrow> (st', Redirect ''/users''))"

definition post_update :: "env \<Rightarrow> nat option \<Rightarrow> form_body \<Rightarrow> store \<Rightarrow> store \<times> response" where
  "post_update e i b0 st =
     (case submission_errors e b0 of
        x # xs \<Rightarrow>
          (case findById st i of
             Inl err \<Rightarrow> (st, Unhandled err)
           | Inr None \<Rightarrow> (st, Redirect ''/users'')
           | Inr (Some u) \<Rightarrow> (st, RenderEdit 400 u (Some (joined_messages (x # xs)))))
      | [] \<Rightarrow>
          (let b = sanitize b0 in
           case findById st i of
             Inl err \<Rightarrow> (st, update_catch i st err)
           | Inr None \<Rightarrow>
               (st, update_catch i st
                      (TypeError ''Cannot read properties of null (reading validationStatus)''))
           | Inr (Some u) \<Rightarrow>
               (case validateEmail (parseFloat e) (gateway e (field_string (body_email b))) of
                  Inr r \<Rightarrow>
                    if \<not> isValid r then (st, RenderEdit 400 u (Some (message r)))
                    else update_write e i b st (message r)
                | Inl err \<Rightarrow> update_write e i b st ''Validation unavailable'')))"

definition get_delete :: "nat option \<Rightarrow> store \<Rightarrow> store \<times> response" where
  "get_delete i st =
     (case findByIdAndDelete st i of
        Inl err \<Rightarrow> (st, Redirect ''/users'')
      | Inr (st', r) \<Rightarrow> (st', Redirect ''/users''))"

subsection \<open>\<open>GET /dashboard\<close> (lines 462 to 564)\<close>

text \<open>
  The year of an instant in UTC (\<open>$year\<close>), by the civil calendar: \<open>civil_year z\<close> is the
  year of the day \<open>z\<close> days after 1970-01-01.
\<close>

definition civil_year :: "int \<Rightarrow> int" where
  "civil_year z0 =
     (let z = z0 + 719468;
          era = z div 146097;
          doe = z - era * 146097;
          yoe = (doe - doe div 1460 + doe div 36524 - doe div 146096) div 365;
          doy = doe - (365 * yoe + yoe div 4 - yoe div 100);
          mp = (5 * doy + 2) div 153
      in yoe + era * 400 + (if mp < 10 then 0 else 1))"

definition ms_per_day :: int where
  "ms_per_day = 1000 * 60 * 60 * 24"

definition year_of :: "timestamp \<Rightarrow> int" where
  "year_of t = civil_year (t div ms_per_day)"

text \<open>
  \<open>{$group: {_id: key, count: {$sum: 1}}}\<close> over the keys of the documents: one group per
  key, here in the order in which the keys first occur.
\<close>

definition group_count :: "'k list \<Rightarrow> ('k \<times> nat) list" where
  "group_count ks = map (\<lambda>k. (k, count_list ks k)) (rev (remdups (rev ks)))"

text \<open>
  \<open>{$sort: {count: -1}}\<close>: by descending count. The store does not fix the order of groups
  with equal counts; the model keeps them in the order of \<open>group_count\<close>.
\<close>

definition sort_count_desc :: "('k \<times> nat) list \<Rightarrow> ('k \<times> nat) list" where
  "sort_count_desc gs = sort_key (\<lambda>g. - int (snd g)) gs"

text \<open>
  The age of lines 499 to 506: \<open>$subtract\<close> of two dates is a number of milliseconds, the
  divisor \<open>1000 * 60 * 60 * 24 * 365.25\<close> is the integer 31557600000, and \<open>$floor\<close> of the
  quotient is the integer quotient rounded down (the double quotient of two such integers
  does not round across an integer for any age below 10000 years).
\<close>

definition ms_per_year :: int where
  "ms_per_year = 31557600000"

definition age :: "timestamp \<Rightarrow> timestamp \<Rightarrow> int" where
  "age today d = (today - d) div ms_per_year"

text \<open>
  \<open>$bucket\<close> with the boundaries \<open>[0, 18, 30, 45, 60, 120]\<close> and the default \<open>"Other"\<close>: a
  value falls into the bucket of the lower bound \<open>lo\<close> when \<open>lo \<le> value < hi\<close> for two
  consecutive boundaries, and into the default bucket otherwise.
\<close>

datatype bucket = Lower int | Other

definition boundaries :: "int list" where
  "boundaries = [0, 18, 30, 45, 60, 120]"

fun bucket_of :: "int list \<Rightarrow> int \<Rightarrow> bucket" where
  "bucket_of (lo # hi # bs) v = (if lo \<le> v \<and> v < hi then Lower lo else bucket_of (hi # bs) v)"
| "bucket_of bs v = Other"

definition age_bucket :: "timestamp \<Rightarrow> timestamp \<Rightarrow> bucket" where
  "age_bucket today d = bucket_of boundaries (age today d)"

text \<open>
  The output of the \<open>$bucket\<close> stage: the buckets that hold at least one document, by
  ascending lower bound, the default bucket last, each with its count.
\<close>

definition ageDistributionAgg :: "timestamp \<Rightarrow> store \<Rightarrow> (bucket \<times> nat) list" where
  "ageDistributionAgg today st =
     (let bs = map (\<lambda>u. age_bucket today (dob u)) st
      in filter (\<lambda>g. snd g > 0)
           (map (\<lambda>b. (b, count_list bs b)) (map Lower (butlast boundaries) @ [Other])))"

text \<open>The label of line 520.\<close>

fun bucket_label :: "bucket \<Rightarrow> string" where
  "bucket_label Other = ''Other''"
| "bucket_label (Lower i) = int_to_string i @ ''-'' @ int_to_string (i + (if i = 60 then 60 else 14))"

definition usersByYear :: "store \<Rightarrow> (int \<times> nat) list" where
  "usersByYear st = sort_key fst (group_count (map (\<lambda>u. year_of (createdAt u)) st))"

definition usersByCountryAgg :: "store \<Rightarrow> (string \<times> nat) list" where
  "usersByCountryAgg st = sort_count_desc (group_count (map country st))"

definition topStatesAgg :: "string \<Rightarrow> store \<Rightarrow> (string \<times> nat) list" where
  "topStatesAgg c st =
     take 5 (sort_count_desc (group_count (map state (filter (\<lambda>u. country u = c) st))))"

text \<open>\<open>item._id || "Unknown"\<close>.\<close>

definition or_unknown :: "string \<Rightarrow> string" where
  "or_unknown s = or_else s ''Unknown''"

text \<open>\<open>usersByCountryAgg[0]?._id || null\<close>.\<close>

definition mostCommonCountry :: "(string \<times> nat) list \<Rightarrow> string option" where
  "mostCommonCountry agg = (case agg of [] \<Rightarrow> None | g # gs \<Rightarrow> truthy (Some (fst g)))"

definition empty_series :: series where
  "empty_series = \<lparr> labels = [], data = [] \<rparr>"

text \<open>
  \<open>find().sort({createdAt: -1}).limit(5)\<close>; documents created at the same instant stay in
  the order of the store. The projection of line 542 only leaves \<open>updatedAt\<close> out.
\<close>

definition recent :: "store \<Rightarrow> user list" where
  "recent st = take 5 (sort_key (\<lambda>u. - createdAt u) st)"

definition get_dashboard :: "env \<Rightarrow> store \<Rightarrow> response" where
  "get_dashboard e st =
     (let n = length st in
      if n > 0 then
        (let byYear = usersByYear st;
             byCountry = usersByCountryAgg st;
             byAge = ageDistributionAgg (now e) st
         in RenderDashboard
              \<lparr> totalUsers = n,
                usersOverTime = \<lparr> labels = map (\<lambda>g. int_to_string (fst g)) byYear,
                                  data = map snd byYear \<rparr>,
                usersByCountry = \<lparr> labels = map (\<lambda>g. or_unknown (fst g)) byCountry,
                                   data = map snd byCountry \<rparr>,
                ageDistribution = \<lparr> labels = map (\<lambda>g. bucket_label (fst g)) byAge,
                                    data = map snd byAge \<rparr>,
                topStates =
                  (case mostCommonCountry byCountry of
                     None \<Rightarrow> empty_series
                   | Some c \<Rightarrow>
                       \<lparr> labels = map (\<lambda>g. or_unknown (fst g)) (topStatesAgg c st),
                         data = map snd (topStatesAgg c st) \<rparr>),
                recentUsers = recent st \<rparr>)
      else
        RenderDashboard
          \<lparr> totalUsers = n, usersOverTime = empty_series, usersByCountry = empty_series,
            ageDistribution = empty_series, topStates = empty_series, recentUsers = [] \<rparr>)"

subsection \<open>The session: \<open>ensureAdmin\<close> and the login (lines 70 to 79 and 566 to 596)\<close>

text \<open>
  \<open>req.session\<close>: \<open>isAdmin\<close> is \<open>False\<close> while the property is unset; \<open>attempts\<close> is \<open>None\<close>
  while it is \<open>undefined\<close>.
\<close>

record session =
  isAdmin :: bool
  attempts :: "int option"

text \<open>
  \<open>ensureAdmin\<close>: \<open>continue\<close> is what the rest of the route does with the store when the
  guard calls \<open>next()\<close>.
\<close>

definition ensureAdmin :: "session \<Rightarrow> store \<Rightarrow> store \<times> response \<Rightarrow> store \<times> response" where
  "ensureAdmin s st continue = (if isAdmin s then continue else (st, Redirect ''/admin''))"

text \<open>The middleware of lines 566 to 569.\<close>

definition init_attempts :: "session \<Rightarrow> session" where
  "init_attempts s = (case attempts s of None \<Rightarrow> s \<lparr> attempts := Some 0 \<rparr> | Some a \<Rightarrow> s)"

text \<open>The number \<open>req.session.attempts\<close> once the middleware has run.\<close>

definition attempts_of :: "session \<Rightarrow> int" where
  "attempts_of s = (case attempts s of None \<Rightarrow> 0 | Some a \<Rightarrow> a)"

text \<open>\<open>req.body\<close> of the login form.\<close>

record login_body =
  username :: "string option"
  password :: "string option"

definition lockout_message :: string where
  "lockout_message =
     [CHR 0xF0, CHR 0x9F, CHR 0x9A, CHR 0xAB] @ '' Too many failed attempts. Please try again later.''"

definition invalid_credentials_message :: "int \<Rightarrow> string" where
  "invalid_credentials_message remaining =
     [CHR 0xE2, CHR 0x9D, CHR 0x8C] @ '' Invalid credentials. '' @ int_to_string remaining @
     '' attempts remaining.''"

text \<open>
  The handler of \<open>POST /admin\<close> (lines 575 to 590) on a session in which \<open>attempts\<close> is the
  number \<open>a\<close>.
\<close>

definition post_admin_handler :: "env \<Rightarrow> login_body \<Rightarrow> session \<Rightarrow> int \<Rightarrow> session \<times> response" where
  "post_admin_handler e b s a =
     (if a \<ge> 3 then (s, RenderAdmin (Some lockout_message))
      else if username b = Some (ADMIN_USER e) \<and> password b = Some (ADMIN_PASSWORD e)
        then (s \<lparr> isAdmin := True, attempts := Some 0 \<rparr>, Redirect ''/dashboard'')
      else (s \<lparr> attempts := Some (a + 1) \<rparr>,
            RenderAdmin (Some (invalid_credentials_message (3 - (a + 1))))))"

text \<open>\<open>POST /admin\<close>: the middleware, then the handler.\<close>

definition post_admin :: "env \<Rightarrow> login_body \<Rightarrow> session \<Rightarrow> session \<times> response" where
  "post_admin e b s = (let s' = init_attempts s in post_admin_handler e b s' (attempts_of s'))"

definition get_admin :: "session \<Rightarrow> session \<times> response" where
  "get_admin s = (init_attempts s, RenderAdmin None)"

text \<open>\<open>GET /logout\<close>: \<open>req.session.destroy\<close> leaves no session.\<close>

definition get_logout :: "session \<Rightarrow> session \<times> response" where
  "get_logout s = (\<lparr> isAdmin = False, attempts = None \<rparr>, Redirect ''/admin'')"

subsection \<open>The rate limiter (lines 40 to 45)\<close>

text \<open>
  \<open>app.use(path, middleware)\<close> runs the middleware for the request paths that are \<open>path\<close>
  or continue \<open>path\<close> with a \<open>/\<close>, compared without regard to case.
\<close>

definition mounted_on :: "string \<Rightarrow> string \<Rightarrow> bool" where
  "mounted_on mount path =
     (let p = toLowerCase path; n = length mount
      in take n p = toLowerCase mount \<and> (length p = n \<or> p ! n = CHR ''/''))"

text \<open>
  The limiter \<open>rateLimit({windowMs: 15 * 60 * 1000, max: 100})\<close> as it counts one client:
  the hits of the current window and the time at which the window ends. A request passes
  (\<open>True\<close>) while the window holds at most \<open>max\<close> hits; otherwise the limiter answers 429
  itself.
\<close>

record limiter =
  hits :: nat
  resetTime :: timestamp

definition windowMs :: int where
  "windowMs = 15 * 60 * 1000"

definition max_hits :: nat where
  "max_hits = 100"

definition apiLimiter :: "timestamp \<Rightarrow> limiter \<Rightarrow> limiter \<times> bool" where
  "apiLimiter t l =
     (let l1 = (if t \<ge> resetTime l then \<lparr> hits = 0, resetTime = t + windowMs \<rparr> else l);
          l2 = l1 \<lparr> hits := hits l1 + 1 \<rparr>
      in (l2, hits l2 \<le> max_hits))"

text \<open>
  A request \<open>GET /api/validate-email?email=q\<close> at the time \<open>t\<close>: the limiter is mounted on
  \<open>/api/validate\<close> (line 45), the handler on \<open>/api/validate-email\<close> (line 111).
\<close>

definition serve_validate_email :: "env \<Rightarrow> limiter \<Rightarrow> timestamp \<Rightarrow> string option \<Rightarrow> limiter \<times> response" where
  "serve_validate_email e l t q =
     (if mounted_on ''/api/validate'' ''/api/validate-email'' then
        (case apiLimiter t l of
           (l', True) \<Rightarrow> (l', get_api_validate_email e q)
         | (l', False) \<Rightarrow> (l', TooManyRequests))
      else (l, get_api_validate_email e q))"

text \<open>Requests of one client, one after the other, as (time, email).\<close>

fun serve_validate_emails :: "env \<Rightarrow> limiter \<Rightarrow> (timestamp \<times> string option) list \<Rightarrow> response list" where
  "serve_validate_emails e l [] = []"
| "serve_validate_emails e l ((t, q) # rs) =
     (case serve_validate_email e l t q of (l', r) \<Rightarrow> r # serve_validate_emails e l' rs)"

subsection \<open>The routes behind \<open>ensureAdmin\<close>\<close>

text \<open>Every route that is registered with \<open>ensureAdmin\<close>, with what the request carries.\<close>

datatype admin_request =
    GetApiUsers list_query
  | GetApiUser "nat option"
  | PostApiUsers form_body
  | PutApiUser "nat option" form_body
  | DeleteApiUser "nat option"
  | DeleteApiUsers
  | GetUsers "int option"
  | GetCreate
  | GetDeleteAll
  | GetExport
  | GetEdit "nat option"
  | PostUpdate "nat option" form_body
  | GetDelete "nat option"
  | GetDashboard

text \<open>
  The routes as they are registered: the guard first, then the validation chain and the
  handler.
\<close>

fun admin_route :: "env \<Rightarrow> session \<Rightarrow> admin_request \<Rightarrow> store \<Rightarrow> store \<times> response" where
  "admin_route e s (GetApiUsers q) st = ensureAdmin s st (st, get_api_users e q st)"
| "admin_route e s (GetApiUser i) st = ensureAdmin s st (st, get_api_user i st)"
| "admin_route e s (PostApiUsers b) st = ensureAdmin s st (post_api_users e b st)"
| "admin_route e s (PutApiUser i b) st = ensureAdmin s st (put_api_user e i b st)"
| "admin_route e s (DeleteApiUser i) st = ensureAdmin s st (delete_api_user i st)"
| "admin_route e s DeleteApiUsers st = ensureAdmin s st (delete_api_users st)"
| "admin_route e s (GetUsers p) st = ensureAdmin s st (st, get_users p st)"
| "admin_route e s GetCreate st = ensureAdmin s st (st, RenderCreate)"
| "admin_route e s GetDeleteAll st = ensureAdmin s st (get_delete_all st)"
| "admin_route e s GetExport st = ensureAdmin s st (st, get_export st)"
| "admin_route e s (GetEdit i) st = ensureAdmin s st (st, get_edit i st)"
| "admin_route e s (PostUpdate i b) st = ensureAdmin s st (post_update e i b st)"
| "admin_route e s (GetDelete i) st = ensureAdmin s st (get_delete i st)"
| "admin_route e s GetDashboard st = ensureAdmin s st (st, get_dashboard e st)"

section \<open>Calendar dates\<close>

text \<open>
  The civil calendar, to say what \<open>a date of birth exactly n years before today\<close> is:
  \<open>days_from_civil y m d\<close> is the number of days from 1970-01-01 to the date, and
  \<open>utc_midnight y m d\<close> the instant at which that day starts in UTC, which is what
  \<open>new Date("y-m-d")\<close> stores for a date of birth.
\<close>

definition leap_year :: "int \<Rightarrow> bool" where
  "leap_year y = (y mod 4 = 0 \<and> (y mod 100 \<noteq> 0 \<or> y mod 400 = 0))"

definition days_in_month :: "int \<Rightarrow> int \<Rightarrow> int" where
  "days_in_month y m =
     (if m = 2 then (if leap_year y then 29 else 28)
      else if m = 4 \<or> m = 6 \<or> m = 9 \<or> m = 11 then 30
      else 31)"

definition valid_date :: "int \<Rightarrow> int \<Rightarrow> int \<Rightarrow> bool" where
  "valid_date y m d = (1 \<le> m \<and> m \<le> 12 \<and> 1 \<le> d \<and> d \<le> days_in_month y m)"

definition days_from_civil :: "int \<Rightarrow> int \<Rightarrow> int \<Rightarrow> int" where
  "days_from_civil y m d =
     (let y' = (if m \<le> 2 then y - 1 else y);
          mp = (if m > 2 then m - 3 else m + 9);
          doy = (153 * mp + 2) div 5 + d - 1
      in 365 * y' + y' div 4 - y' div 100 + y' div 400 + doy - 719468)"

definition utc_midnight :: "int \<Rightarrow> int \<Rightarrow> int \<Rightarrow> timestamp" where
  "utc_midnight y m d = days_from_civil y m d * ms_per_day"

subsection \<open>The bucket a record is counted in\<close>

text \<open>
  A record \<open>u\<close> of the store is counted in the bucket \<open>b\<close> of the age histogram: its age
  falls into \<open>b\<close>, and the output of the \<open>$bucket\<close> stage has the group \<open>b\<close> with the number
  of records of the store whose age falls into \<open>b\<close>.
\<close>

definition counted_in :: "timestamp \<Rightarrow> store \<Rightarrow> user \<Rightarrow> bucket \<Rightarrow> bool" where
  "counted_in today st u b =
     (u \<in> set st \<and> age_bucket today (dob u) = b \<and>
      (b, length (filter (\<lambda>v. age_bucket today (dob v) = b) st)) \<in> set (ageDistributionAgg today st))"

section \<open>Sample data\<close>

text \<open>
  An environment, a request body and records on which the theorems below are evaluated.
  The clock stands at 2026-11-03T00:00:00Z; the deliverability service is out of reach;
  \<open>isEmail\<close> accepts the shape \<open>local@domain.tld\<close>; the one date that is read is
  \<open>2000-01-01\<close>; no sample request carries a search pattern, and the store accepts none.
  \<open>undeliverable_env\<close> is the same environment with a deliverability service that answers
  \<open>UNDELIVERABLE\<close> with the score 0.40. \<open>born y m d\<close> is a record whose date of birth is
  the day \<open>y-m-d\<close>.
\<close>

definition sample_env :: env where
  "sample_env =
     \<lparr> parseFloat = (\<lambda>s. if s = ''0.95'' then Num (19 / 20)
                         else if s = ''0.40'' then Num (2 / 5) else NaN),
       gateway = (\<lambda>a. Rejected None ''connect ETIMEDOUT''),
       isEmail = schema_email_match,
       isDate = (\<lambda>s. s = ''2000-01-01''),
       toDate = (\<lambda>s. if s = ''2000-01-01'' then Some 946684800000 else None),
       now = 1793664000000,
       minDate = - 1993248000000,
       regex_i = (\<lambda>p. None),
       env_ADMIN_USER = None,
       env_ADMIN_PASS = None \<rparr>"

definition sample_body :: form_body where
  "sample_body =
     \<lparr> body_name = Some ''Ada'',
       body_email = Some ''ada@example.com'',
       body_dob = Some ''2000-01-01'',
       body_contact = Some ''0123456789'',
       body_state = Some ''Kerala'',
       body_country = Some ''India'' \<rparr>"

definition sample_user :: "nat \<Rightarrow> string \<Rightarrow> user" where
  "sample_user i addr =
     \<lparr> uid = i, name = ''Ada'', email = addr, dob = 946684800000, contact = ''0123456789'',
       state = ''Kerala'', country = ''India'', createdAt = 1700000000000,
       updatedAt = 1700000000000, validationStatus = Some ''Email validated'' \<rparr>"

definition admin_session :: session where
  "admin_session = \<lparr> isAdmin = True, attempts = Some 0 \<rparr>"

definition fresh_session :: session where
  "fresh_session = \<lparr> isAdmin = False, attempts = None \<rparr>"

definition sample_store :: store where
  "sample_store = map (\<lambda>i. sample_user i (''user'' @ nat_to_string i @ ''@example.com'')) [1..<26]"

definition undeliverable_env :: env where
  "undeliverable_env =
     sample_env \<lparr> gateway := (\<lambda>a. Resolved (Some \<lparr> deliverability = JString ''UNDELIVERABLE'',
                                                      quality_score = JString ''0.40'' \<rparr>)) \<rparr>"

definition rename_body :: form_body where
  "rename_body =
     \<lparr> body_name = Some ''Grace'', body_email = None, body_dob = None, body_contact = None,
       body_state = None, body_country = None \<rparr>"

definition born :: "int \<Rightarrow> int \<Rightarrow> int \<Rightarrow> user" where
  "born y m d = (sample_user 1 ''ada@example.com'') \<lparr> dob := utc_midnight y m d \<rparr>"

section \<open>Theorems\<close>

subsection \<open>The gateway's classification\<close>

text \<open>
  C5. \<open>validateEmail\<close> classifies every well-formed response (it does not throw on one). The
  result is valid exactly when the service reports the deliverability \<open>DELIVERABLE\<close> and a
  quality score that \<open>parseFloat\<close> reads as a number strictly greater than 0.7. For every
  other well-formed response the result is invalid and its message is
  \<open>Email <deliverability in lower case> (Quality: <quality_score>)\<close>, made of the service's
  own classification and score.
\<close>

theorem validateEmail_classifies:
  assumes "well_formed r"
  shows "\<exists>d dl qs v.
           r = Resolved (Some d) \<and> deliverability d = JString dl \<and> quality_score d = JString qs \<and>
           validateEmail pf r = Inr v \<and>
           (isValid v \<longleftrightarrow> dl = ''DELIVERABLE'' \<and> js_gt (pf qs) (7 / 10)) \<and>
           (\<not> isValid v \<longrightarrow> message v = ''Email '' @ toLowerCase dl @ '' (Quality: '' @ qs @ '')'')"
  using assms
  by (cases r rule: well_formed.cases)
     (auto simp: validateEmail_def validateEmail_try_def Let_def split: js_value.splits)

theorem validateEmail_classifies_witness:
  "well_formed (Resolved (Some \<lparr> deliverability = JString ''UNDELIVERABLE'',
                                 quality_score = JString ''0.40'' \<rparr>)) \<and>
   validateEmail (\<lambda>s. if s = ''0.40'' then Num (2 / 5) else NaN)
     (Resolved (Some \<lparr> deliverability = JString ''UNDELIVERABLE'',
                       quality_score = JString ''0.40'' \<rparr>))
   = Inr \<lparr> isValid = False, message = ''Email undeliverable (Quality: 0.40)'' \<rparr> \<and>
   well_formed (Resolved (Some \<lparr> deliverability = JString ''DELIVERABLE'',
                                 quality_score = JString ''0.95'' \<rparr>)) \<and>
   validateEmail (\<lambda>s. if s = ''0.95'' then Num (19 / 20) else NaN)
     (Resolved (Some \<lparr> deliverability = JString ''DELIVERABLE'',
                       quality_score = JString ''0.95'' \<rparr>))
   = Inr \<lparr> isValid = True, message = ''Email validated'' \<rparr>"
  using
    validateEmail_classifies [of "Resolved (Some \<lparr> deliverability = JString ''UNDELIVERABLE'',
        quality_score = JString ''0.40'' \<rparr>)" "\<lambda>s. if s = ''0.40'' then Num (2 / 5) else NaN"]
    validateEmail_classifies [of "Resolved (Some \<lparr> deliverability = JString ''DELIVERABLE'',
        quality_score = JString ''0.95'' \<rparr>)" "\<lambda>s. if s = ''0.95'' then Num (19 / 20) else NaN"]
  by (simp add: validateEmail_def validateEmail_try_def toLowerCase_def lower_char_def)

subsection \<open>The login and its lockout\<close>

text \<open>
  C3. \<open>POST /admin\<close> on a session whose counter \<open>attempts\<close> is at least 3 renders the
  login form with the lockout message whatever the credentials are, and leaves the session
  as it is: \<open>isAdmin\<close> is not set and \<open>attempts\<close> is not incremented. On a session with
  \<open>attempts < 3\<close>, a username and password that equal the two configured secrets set
  \<open>isAdmin\<close>, reset \<open>attempts\<close> to 0 and redirect to the dashboard; any other credentials
  increment \<open>attempts\<close> and render the login form with the number \<open>3 - attempts\<close> of
  remaining attempts, taken after the increment.
\<close>

theorem admin_login:
  "(attempts_of s \<ge> 3 \<longrightarrow>
      post_admin e b s = (s, RenderAdmin (Some lockout_message))) \<and>
   (attempts_of s < 3 \<and> username b = Some (ADMIN_USER e) \<and> password b = Some (ADMIN_PASSWORD e) \<longrightarrow>
      post_admin e b s = (s \<lparr> isAdmin := True, attempts := Some 0 \<rparr>, Redirect ''/dashboard'')) \<and>
   (attempts_of s < 3 \<and> \<not> (username b = Some (ADMIN_USER e) \<and> password b = Some (ADMIN_PASSWORD e)) \<longrightarrow>
      post_admin e b s =
        (s \<lparr> attempts := Some (attempts_of s + 1) \<rparr>,
         RenderAdmin (Some (invalid_credentials_message (3 - (attempts_of s + 1))))))"
  by (cases "attempts s")
     (auto simp: post_admin_def post_admin_handler_def init_attempts_def attempts_of_def Let_def)

theorem admin_login_witness:
  "attempts_of \<lparr> isAdmin = False, attempts = Some 3 \<rparr> \<ge> 3 \<and>
   post_admin sample_env \<lparr> username = Some ''admin'', password = Some ''admin123'' \<rparr>
     \<lparr> isAdmin = False, attempts = Some 3 \<rparr>
     = (\<lparr> isAdmin = False, attempts = Some 3 \<rparr>, RenderAdmin (Some lockout_message)) \<and>
   post_admin sample_env \<lparr> username = Some ''admin'', password = Some ''admin123'' \<rparr>
     \<lparr> isAdmin = False, attempts = Some 2 \<rparr>
     = (\<lparr> isAdmin = True, attempts = Some 0 \<rparr>, Redirect ''/dashboard'') \<and>
   post_admin sample_env \<lparr> username = Some ''admin'', password = Some ''guess'' \<rparr> fresh_session
     = (\<lparr> isAdmin = False, attempts = Some 1 \<rparr>,
        RenderAdmin (Some ([CHR 0xE2, CHR 0x9D, CHR 0x8C] @
          '' Invalid credentials. 2 attempts remaining.'')))"
  using
    admin_login [of "\<lparr> isAdmin = False, attempts = Some 3 \<rparr>" sample_env
      "\<lparr> username = Some ''admin'', password = Some ''admin123'' \<rparr>"]
    admin_login [of "\<lparr> isAdmin = False, attempts = Some 2 \<rparr>" sample_env
      "\<lparr> username = Some ''admin'', password = Some ''admin123'' \<rparr>"]
    admin_login [of fresh_session sample_env
      "\<lparr> username = Some ''admin'', password = Some ''guess'' \<rparr>"]
  by (simp add: attempts_of_def fresh_session_def sample_env_def ADMIN_USER_def ADMIN_PASSWORD_def
        or_string_def invalid_credentials_message_def int_to_string_def digit_char_def)

subsection \<open>The guard\<close>

text \<open>
  C8. A request to any route behind \<open>ensureAdmin\<close> by a session whose \<open>isAdmin\<close> is false
  is answered with the redirect to \<open>/admin\<close>: no protected view or JSON is produced, the
  store is left as it is, and the response is the same for every content of the store (and
  every environment), so nothing of the records reaches the client.
\<close>

theorem guard_redirects:
  assumes "\<not> isAdmin s"
  shows "admin_route e s req st = (st, Redirect ''/admin'') \<and>
         snd (admin_route e s req st) = snd (admin_route e' s req st')"
  using assms by (cases req) (simp_all add: ensureAdmin_def)

theorem guard_redirects_witness:
  "\<not> isAdmin fresh_session \<and>
   admin_route sample_env fresh_session GetExport [sample_user 1 ''ada@example.com'']
     = ([sample_user 1 ''ada@example.com''], Redirect ''/admin'') \<and>
   admin_route sample_env fresh_session GetDeleteAll [sample_user 1 ''ada@example.com'']
     = ([sample_user 1 ''ada@example.com''], Redirect ''/admin'')"
  using guard_redirects [of fresh_session sample_env GetExport "[sample_user 1 ''ada@example.com'']"]
        guard_redirects [of fresh_session sample_env GetDeleteAll "[sample_user 1 ''ada@example.com'']"]
  by (simp add: fresh_session_def)

subsection \<open>The dashboard of an empty store\<close>

text \<open>
  C7. When the store holds no record, \<open>GET /dashboard\<close> (by an admin session) renders the
  dashboard view with \<open>totalUsers = 0\<close> and with empty label and value lists for
  \<open>usersOverTime\<close>, \<open>usersByCountry\<close>, \<open>ageDistribution\<close> and \<open>topStates\<close> and an empty
  \<open>recentUsers\<close>; the answer is that view and not the error rendering.
\<close>

theorem dashboard_empty:
  assumes "isAdmin s"
  shows "admin_route e s GetDashboard [] =
           ([], RenderDashboard
                  \<lparr> totalUsers = 0,
                    usersOverTime = \<lparr> labels = [], data = [] \<rparr>,
                    usersByCountry = \<lparr> labels = [], data = [] \<rparr>,
                    ageDistribution = \<lparr> labels = [], data = [] \<rparr>,
                    topStates = \<lparr> labels = [], data = [] \<rparr>,
                    recentUsers = [] \<rparr>)"
  using assms by (simp add: ensureAdmin_def get_dashboard_def empty_series_def)

theorem dashboard_empty_witness:
  "isAdmin admin_session \<and>
   admin_route sample_env admin_session GetDashboard [] =
     ([], RenderDashboard
            \<lparr> totalUsers = 0,
              usersOverTime = \<lparr> labels = [], data = [] \<rparr>,
              usersByCountry = \<lparr> labels = [], data = [] \<rparr>,
              ageDistribution = \<lparr> labels = [], data = [] \<rparr>,
              topStates = \<lparr> labels = [], data = [] \<rparr>,
              recentUsers = [] \<rparr>)"
  using dashboard_empty [of admin_session sample_env] by (simp add: admin_session_def)

subsection \<open>Auxiliary facts\<close>

lemma dropWhile_strip_end:
  assumes "xs = [] \<or> \<not> P (hd xs)"
  shows "dropWhile P (rev (dropWhile P (rev xs))) = rev (dropWhile P (rev xs))"
proof (cases "rev (dropWhile P (rev xs))")
  case Nil
  then show ?thesis by (simp del: dropWhile_eq_Nil_conv)
next
  case (Cons y ys)
  have "rev xs = takeWhile P (rev xs) @ dropWhile P (rev xs)" by simp
  then have "xs = rev (dropWhile P (rev xs)) @ rev (takeWhile P (rev xs))"
    by (metis rev_append rev_rev_ident)
  with Cons have "xs = y # (ys @ rev (takeWhile P (rev xs)))" by simp
  with assms have "\<not> P y" by (cases xs) auto
  with Cons show ?thesis by simp
qed

lemma dropWhile_head: "dropWhile P xs = [] \<or> \<not> P (hd (dropWhile P xs))"
  by (metis hd_dropWhile)

lemma trim_idem: "trim (trim s) = trim s"
  unfolding trim_def
  using dropWhile_strip_end [of "dropWhile is_space s" is_space] dropWhile_head [of is_space s]
  by simp

text \<open>\<open>validateEmail\<close> throws exactly on the responses that are not well formed.\<close>

lemma validateEmail_Inl_iff: "(\<exists>err. validateEmail pf r = Inl err) \<longleftrightarrow> \<not> well_formed r"
  by (cases r rule: well_formed.cases)
     (auto simp: validateEmail_def validateEmail_try_def Let_def split: js_value.splits option.splits)

lemma validateEmail_not_well_formed:
  "\<not> well_formed r \<Longrightarrow> \<exists>err. validateEmail pf r = Inl err"
  using validateEmail_Inl_iff by blast

lemma validated_document_status:
  "validated_document e i b vs = Inr u \<Longrightarrow> validationStatus u = vs"
  by (auto simp: validated_document_def Let_def split: sum.splits)

lemma save_Inr:
  "save e st b vs = Inr (st', u) \<Longrightarrow> st' = st @ [u] \<and> validationStatus u = vs"
  by (auto simp: save_def validated_document_status split: sum.splits if_splits)

lemma sanitize_email [simp]: "body_email (sanitize b) = body_email b"
  by (simp add: sanitize_def)

text \<open>What does not read the gateway does not depend on it.\<close>

lemma check_dob_gateway: "check_dob (e \<lparr> gateway := g \<rparr>) v = check_dob e v"
  by (simp add: check_dob_def check_dob_value_def dob_in_range_def split: option.splits)

lemma validated_document_gateway:
  "validated_document (e \<lparr> gateway := g \<rparr>) i b vs = validated_document e i b vs"
  by (simp add: validated_document_def check_dob_gateway Let_def split: sum.splits)

lemma save_gateway: "save (e \<lparr> gateway := g \<rparr>) st b vs = save e st b vs"
  by (simp add: save_def validated_document_gateway)

lemma submission_errors_gateway:
  "submission_errors (e \<lparr> gateway := g \<rparr>) b = submission_errors e b"
  by (simp add: submission_errors_def)

text \<open>\<open>Math.ceil(total / limit)\<close> is the ceiling of the quotient.\<close>

lemma ceil_div_ceiling: "ceil_div n l = \<lceil>real_of_int n / real_of_int l\<rceil>"
  by (simp add: ceil_div_def ceiling_divide_eq_div)

lemma get_api_users_page:
  assumes "find_query e (search_of q) st = Some ms"
    and "1 \<le> or_default (q_page q) 1" and "1 \<le> or_default (q_limit q) 50"
  shows "get_api_users e q st =
           JsonUsers 200
             (take (nat (or_default (q_limit q) 50))
                (drop (nat ((or_default (q_page q) 1 - 1) * or_default (q_limit q) 50)) ms))
             (or_default (q_page q) 1)
             \<lceil>real (length ms) / real_of_int (or_default (q_limit q) 50)\<rceil>
             (length ms) None"
proof -
  have "0 \<le> (or_default (q_page q) 1 - 1) * or_default (q_limit q) 50"
    using assms(2,3) by simp
  then have "skip_limit ms ((or_default (q_page q) 1 - 1) * or_default (q_limit q) 50)
               (or_default (q_limit q) 50)
             = Inr (take (nat (or_default (q_limit q) 50))
                 (drop (nat ((or_default (q_page q) 1 - 1) * or_default (q_limit q) 50)) ms))"
    using assms(3) unfolding skip_limit_def by (simp only: split: if_splits) auto
  then show ?thesis
    using assms(1) by (simp add: get_api_users_def Let_def ceil_div_ceiling)
qed

lemma get_users_page:
  assumes "1 \<le> or_default p 1"
  shows "get_users p st =
           RenderUsers 200 (take 10 (drop (nat ((or_default p 1 - 1) * 10)) st)) (or_default p 1)
             \<lceil>real (length st) / 10\<rceil> None"
  using assms by (simp add: get_users_def Let_def skip_limit_def ceil_div_ceiling)

text \<open>The limiter is not mounted on the path of the validation route.\<close>

lemma serve_validate_email_unlimited:
  "serve_validate_email e l t q = (l, get_api_validate_email e q)"
  by (simp add: serve_validate_email_def mounted_on_def toLowerCase_def lower_char_def)

lemma serve_validate_emails_all:
  "serve_validate_emails e l rs = map (\<lambda>r. get_api_validate_email e (snd r)) rs"
  by (induction rs arbitrary: l) (auto simp: serve_validate_email_unlimited)

lemma get_api_validate_email_not_429:
  "get_api_validate_email e q \<noteq> TooManyRequests" "TooManyRequests \<noteq> get_api_validate_email e q"
  by (simp_all add: get_api_validate_email_def split: option.splits sum.splits)

subsection \<open>The rate limit of the validation endpoint\<close>

text \<open>
  C2 states that \<open>GET /api/validate-email\<close> serves at most 100 requests of a client per
  15 minutes and rejects the rest. The program does not do that: the limiter is mounted on
  \<open>/api/validate\<close>, which the path \<open>/api/validate-email\<close> does not continue with a \<open>/\<close>,
  so the limiter never runs for the route. 101 requests of one client at the same instant
  are all answered by the handler, and no sequence of requests is ever answered 429.
\<close>

theorem validate_email_never_limited:
  "\<not> mounted_on ''/api/validate'' ''/api/validate-email'' \<and>
   serve_validate_emails e l (replicate 101 (t, q)) = replicate 101 (get_api_validate_email e q) \<and>
   TooManyRequests \<notin> set (serve_validate_emails e l rs)"
  by (auto simp: serve_validate_emails_all mounted_on_def toLowerCase_def lower_char_def
        get_api_validate_email_not_429)

subsection \<open>Creation through the JSON API\<close>

text \<open>
  C10. \<open>POST /api/users\<close> either leaves the store as it is and does not answer 201, or it
  appends exactly one record, answers 201 with it, and that record's \<open>validationStatus\<close> is
  \<open>null\<close> (\<open>None\<close>), the default of the schema. The route does not read the gateway: with
  any other behaviour \<open>g\<close> of the deliverability service the outcome is the same.
\<close>

theorem api_create_status_null:
  assumes "admin_route e s (PostApiUsers b) st = (st', r)"
  shows "((\<exists>u. r = JsonUser 201 u \<and> st' = st @ [u] \<and> validationStatus u = None) \<or>
          (st' = st \<and> (\<forall>u. r \<noteq> JsonUser 201 u))) \<and>
         admin_route (e \<lparr> gateway := g \<rparr>) s (PostApiUsers b) st = (st', r)"
  using assms
  by (auto simp: ensureAdmin_def post_api_users_def save_gateway submission_errors_gateway
        split: if_splits list.splits sum.splits dest!: save_Inr)

theorem api_create_status_null_witness:
  "admin_route sample_env admin_session (PostApiUsers sample_body) []
     = ([\<lparr> uid = 1, name = ''Ada'', email = ''ada@example.com'', dob = 946684800000,
            contact = ''0123456789'', state = ''Kerala'', country = ''India'',
            createdAt = 1793664000000, updatedAt = 1793664000000, validationStatus = None \<rparr>],
        JsonUser 201
          \<lparr> uid = 1, name = ''Ada'', email = ''ada@example.com'', dob = 946684800000,
            contact = ''0123456789'', state = ''Kerala'', country = ''India'',
            createdAt = 1793664000000, updatedAt = 1793664000000, validationStatus = None \<rparr>) \<and>
   admin_route undeliverable_env admin_session (PostApiUsers sample_body) []
     = admin_route sample_env admin_session (PostApiUsers sample_body) []"
proof -
  let ?u = "\<lparr> uid = 1, name = ''Ada'', email = ''ada@example.com'', dob = 946684800000,
            contact = ''0123456789'', state = ''Kerala'', country = ''India'',
            createdAt = 1793664000000, updatedAt = 1793664000000, validationStatus = None \<rparr>"
  have run: "admin_route sample_env admin_session (PostApiUsers sample_body) []
               = ([?u], JsonUser 201 ?u)"
    by code_simp
  from api_create_status_null [OF run, of "gateway undeliverable_env"]
  have "admin_route (sample_env \<lparr> gateway := gateway undeliverable_env \<rparr>) admin_session
          (PostApiUsers sample_body) [] = ([?u], JsonUser 201 ?u)"
    by blast
  then have "admin_route undeliverable_env admin_session (PostApiUsers sample_body) []
               = ([?u], JsonUser 201 ?u)"
    by (simp add: undeliverable_env_def)
  with run show ?thesis by simp
qed

subsection \<open>Pagination\<close>

text \<open>
  C6. For an admin session:
  \<^item> with exactly 25 records in the store, \<open>GET /api/users?page=2&limit=10\<close> answers 200
    with exactly 10 records, \<open>page = 2\<close>, \<open>totalPages = 3\<close> and \<open>totalUsers = 25\<close>;
  \<^item> in general, for a page and a limit of at least 1 (\<open>page\<close> defaults to 1 and \<open>limit\<close> to
    50 when the parameter is absent, not a number or 0) and a search the store accepts, the
    JSON list skips \<open>(page - 1) * limit\<close> of the matching records, returns the next
    \<open>limit\<close> of them at most, and reports \<open>totalPages\<close> as the ceiling of the number of
    matching records divided by \<open>limit\<close>;
  \<^item> the rendered list \<open>GET /users\<close> does the same with the fixed page size 10.
\<close>

theorem pagination:
  assumes "isAdmin s"
  shows
    "(length st = 25 \<longrightarrow>
        (\<exists>us. admin_route e s (GetApiUsers \<lparr> q_page = Some 2, q_limit = Some 10, q_search = None \<rparr>) st
                = (st, JsonUsers 200 us 2 3 25 None) \<and> length us = 10)) \<and>
     (\<forall>ms. find_query e (search_of q) st = Some ms \<and>
           1 \<le> or_default (q_page q) 1 \<and> 1 \<le> or_default (q_limit q) 50 \<longrightarrow>
        admin_route e s (GetApiUsers q) st =
          (st, JsonUsers 200
                 (take (nat (or_default (q_limit q) 50))
                    (drop (nat ((or_default (q_page q) 1 - 1) * or_default (q_limit q) 50)) ms))
                 (or_default (q_page q) 1)
                 \<lceil>real (length ms) / real_of_int (or_default (q_limit q) 50)\<rceil>
                 (length ms) None) \<and>
        int (length (take (nat (or_default (q_limit q) 50))
                    (drop (nat ((or_default (q_page q) 1 - 1) * or_default (q_limit q) 50)) ms)))
          \<le> or_default (q_limit q) 50) \<and>
     (q_limit q = None \<longrightarrow> or_default (q_limit q) 50 = 50) \<and>
     (1 \<le> or_default p 1 \<longrightarrow>
        admin_route e s (GetUsers p) st =
          (st, RenderUsers 200 (take 10 (drop (nat ((or_default p 1 - 1) * 10)) st)) (or_default p 1)
                 \<lceil>real (length st) / 10\<rceil> None))"
proof -
  have a: "length st = 25 \<longrightarrow>
        (\<exists>us. admin_route e s (GetApiUsers \<lparr> q_page = Some 2, q_limit = Some 10, q_search = None \<rparr>) st
                = (st, JsonUsers 200 us 2 3 25 None) \<and> length us = 10)"
    using assms
    by (simp add: ensureAdmin_def get_api_users_def Let_def skip_limit_def ceil_div_def
          or_default_def search_of_def truthy_def find_query_def)
  have b: "\<forall>ms. find_query e (search_of q) st = Some ms \<and>
           1 \<le> or_default (q_page q) 1 \<and> 1 \<le> or_default (q_limit q) 50 \<longrightarrow>
        admin_route e s (GetApiUsers q) st =
          (st, JsonUsers 200
                 (take (nat (or_default (q_limit q) 50))
                    (drop (nat ((or_default (q_page q) 1 - 1) * or_default (q_limit q) 50)) ms))
                 (or_default (q_page q) 1)
                 \<lceil>real (length ms) / real_of_int (or_default (q_limit q) 50)\<rceil>
                 (length ms) None) \<and>
        int (length (take (nat (or_default (q_limit q) 50))
                    (drop (nat ((or_default (q_page q) 1 - 1) * or_default (q_limit q) 50)) ms)))
          \<le> or_default (q_limit q) 50"
    using assms by (auto simp: ensureAdmin_def get_api_users_page)
  have c: "q_limit q = None \<longrightarrow> or_default (q_limit q) 50 = 50"
    by (simp add: or_default_def)
  have d: "1 \<le> or_default p 1 \<longrightarrow>
        admin_route e s (GetUsers p) st =
          (st, RenderUsers 200 (take 10 (drop (nat ((or_default p 1 - 1) * 10)) st)) (or_default p 1)
                 \<lceil>real (length st) / 10\<rceil> None)"
    using assms by (simp add: ensureAdmin_def get_users_page)
  from a b c d show ?thesis by blast
qed

theorem pagination_witness:
  "isAdmin admin_session \<and> length sample_store = 25 \<and>
   (\<exists>us. admin_route sample_env admin_session
            (GetApiUsers \<lparr> q_page = Some 2, q_limit = Some 10, q_search = None \<rparr>) sample_store
          = (sample_store, JsonUsers 200 us 2 3 25 None) \<and> length us = 10) \<and>
   admin_route sample_env admin_session (GetUsers (Some 3)) sample_store
     = (sample_store, RenderUsers 200 (take 10 (drop 20 sample_store)) 3 3 None)"
proof -
  have adm: "isAdmin admin_session"
    by (simp add: admin_session_def)
  have len: "length sample_store = 25"
    by (simp add: sample_store_def)
  have pg: "1 \<le> or_default (Some 3) 1"
    by (simp add: or_default_def)
  note p = pagination [OF adm, of sample_store sample_env _ "Some 3"]
  from p len have first:
    "\<exists>us. admin_route sample_env admin_session
            (GetApiUsers \<lparr> q_page = Some 2, q_limit = Some 10, q_search = None \<rparr>) sample_store
          = (sample_store, JsonUsers 200 us 2 3 25 None) \<and> length us = 10"
    by blast
  from p pg have "admin_route sample_env admin_session (GetUsers (Some 3)) sample_store
     = (sample_store, RenderUsers 200 (take 10 (drop (nat ((or_default (Some 3) 1 - 1) * 10)) sample_store))
          (or_default (Some 3) 1) \<lceil>real (length sample_store) / 10\<rceil> None)"
    by blast
  then have second: "admin_route sample_env admin_session (GetUsers (Some 3)) sample_store
     = (sample_store, RenderUsers 200 (take 10 (drop 20 sample_store)) 3 3 None)"
    by (simp add: or_default_def len)
  from adm len first second show ?thesis by blast
qed

subsection \<open>The public submission and the gateway\<close>

text \<open>
  C1, as stated, promises a persisted record and a success message for every submission
  that passes the field validation while the gateway call fails. The store can still
  reject the record: the address \<open>ada@example.com\<close> is already stored, the gateway is out
  of reach, and \<open>POST /submit\<close> leaves the store as it is and renders
  \<open>Server error: Email already exists\<close>.
\<close>

theorem submit_unavailable_counterexample:
  "submission_errors sample_env sample_body = [] \<and>
   \<not> well_formed (gateway sample_env (field_string (body_email sample_body))) \<and>
   post_submit sample_env sample_body [sample_user 1 ''ada@example.com'']
     = ([sample_user 1 ''ada@example.com''],
        RenderIndex 200 (Some ''Server error: Email already exists'') None None)"
  by code_simp

text \<open>
  C1, amended. For a submission to \<open>POST /submit\<close> that passes the field validation:
  \<^item> when the gateway call fails (the request is rejected or the response is not well
    formed) and the store accepts the record, the record is appended with
    \<open>validationStatus = "Validation unavailable"\<close> and the success message is rendered;
  \<^item> when the gateway call fails and the store rejects the record (schema validation or
    the unique index on \<open>email\<close>), nothing is persisted and \<open>Server error: ...\<close> with the
    store's message is rendered;
  \<^item> when the gateway classifies the address as invalid, nothing is persisted and the
    gateway's message is rendered as the form error.
\<close>

theorem submit_gateway_outcomes:
  assumes "submission_errors e b = []"
  shows
   "(\<not> well_formed (gateway e (field_string (body_email b))) \<longrightarrow>
       (\<forall>st' u. save e st (sanitize b) (Some ''Validation unavailable'') = Inr (st', u) \<longrightarrow>
           post_submit e b st =
             (st @ [u], RenderIndex 200 None (Some ''Form submitted successfully!'')
                          (Some ''Validation unavailable'')) \<and>
           validationStatus u = Some ''Validation unavailable'') \<and>
       (\<forall>err. save e st (sanitize b) (Some ''Validation unavailable'') = Inl err \<longrightarrow>
           post_submit e b st =
             (st, RenderIndex 200 (Some (''Server error: '' @ error_message err)) None None))) \<and>
    (\<forall>r. validateEmail (parseFloat e) (gateway e (field_string (body_email b))) = Inr r \<and>
          \<not> isValid r \<longrightarrow>
       post_submit e b st = (st, RenderIndex 200 (Some (message r)) None None))"
proof -
  have invalid:
    "\<forall>r. validateEmail (parseFloat e) (gateway e (field_string (body_email b))) = Inr r \<and>
         \<not> isValid r \<longrightarrow>
       post_submit e b st = (st, RenderIndex 200 (Some (message r)) None None)"
    using assms by (simp add: post_submit_def Let_def)
  have unavailable: "post_submit e b st = submit_save e (sanitize b) st ''Validation unavailable''"
    if "\<not> well_formed (gateway e (field_string (body_email b)))"
    using validateEmail_not_well_formed [OF that, of "parseFloat e"] assms
    by (auto simp: post_submit_def Let_def)
  show ?thesis
    using invalid unavailable
    by (auto simp: submit_save_def dest!: save_Inr)
qed

theorem submit_gateway_outcomes_witness:
  "submission_errors sample_env sample_body = [] \<and>
   \<not> well_formed (gateway sample_env (field_string (body_email sample_body))) \<and>
   post_submit sample_env sample_body []
     = ([\<lparr> uid = 1, name = ''Ada'', email = ''ada@example.com'', dob = 946684800000,
            contact = ''0123456789'', state = ''Kerala'', country = ''India'',
            createdAt = 1793664000000, updatedAt = 1793664000000,
            validationStatus = Some ''Validation unavailable'' \<rparr>],
        RenderIndex 200 None (Some ''Form submitted successfully!'')
          (Some ''Validation unavailable'')) \<and>
   submission_errors undeliverable_env sample_body = [] \<and>
   post_submit undeliverable_env sample_body []
     = ([], RenderIndex 200 (Some ''Email undeliverable (Quality: 0.40)'') None None)"
proof -
  let ?u = "\<lparr> uid = 1, name = ''Ada'', email = ''ada@example.com'', dob = 946684800000,
            contact = ''0123456789'', state = ''Kerala'', country = ''India'',
            createdAt = 1793664000000, updatedAt = 1793664000000,
            validationStatus = Some ''Validation unavailable'' \<rparr>"
  let ?r = "\<lparr> isValid = False, message = ''Email undeliverable (Quality: 0.40)'' \<rparr>"
  have pass: "submission_errors sample_env sample_body = []"
    by code_simp
  have down: "\<not> well_formed (gateway sample_env (field_string (body_email sample_body)))"
    by code_simp
  have saved: "save sample_env [] (sanitize sample_body) (Some ''Validation unavailable'')
                 = Inr ([?u], ?u)"
    by code_simp
  from submit_gateway_outcomes [OF pass, of "[]"] down saved
  have first: "post_submit sample_env sample_body []
          = ([] @ [?u], RenderIndex 200 None (Some ''Form submitted successfully!'')
                          (Some ''Validation unavailable''))"
    by blast
  have pass': "submission_errors undeliverable_env sample_body = []"
    by code_simp
  have verdict: "validateEmail (parseFloat undeliverable_env)
                   (gateway undeliverable_env (field_string (body_email sample_body))) = Inr ?r"
    by code_simp
  have "\<not> isValid ?r"
    by simp
  with submit_gateway_outcomes [OF pass', of "[]"] verdict
  have "post_submit undeliverable_env sample_body []
          = ([], RenderIndex 200 (Some (message ?r)) None None)"
    by blast
  then have second: "post_submit undeliverable_env sample_body []
          = ([], RenderIndex 200 (Some ''Email undeliverable (Quality: 0.40)'') None None)"
    by simp
  from pass down first pass' second show ?thesis by simp
qed

subsection \<open>Auxiliary facts about the age histogram\<close>

lemma days_from_civil_shift:
  "days_from_civil y m d - days_from_civil (y - k) m d =
     365 * k + ((if m \<le> 2 then y - 1 else y) div 4 - ((if m \<le> 2 then y - 1 else y) - k) div 4)
             - ((if m \<le> 2 then y - 1 else y) div 100 - ((if m \<le> 2 then y - 1 else y) - k) div 100)
             + ((if m \<le> 2 then y - 1 else y) div 400 - ((if m \<le> 2 then y - 1 else y) - k) div 400)"
  by (simp add: days_from_civil_def Let_def algebra_simps)

lemma leap_days_17:
  fixes a :: int
  shows "3 \<le> (a div 4 - (a - 17) div 4) - (a div 100 - (a - 17) div 100) + (a div 400 - (a - 17) div 400)"
    and "(a div 4 - (a - 17) div 4) - (a div 100 - (a - 17) div 100) + (a div 400 - (a - 17) div 400) \<le> 6"
proof -
  define p where "p = a div 4 - (a - 17) div 4"
  define q where "q = a div 100 - (a - 17) div 100"
  define r where "r = a div 400 - (a - 17) div 400"
  have p: "4 \<le> p \<and> p \<le> 5" unfolding p_def by linarith
  have q: "0 \<le> q \<and> q \<le> 1" unfolding q_def by linarith
  have r: "0 \<le> r \<and> r \<le> 1" unfolding r_def by linarith
  from p q r have "3 \<le> p - q + r" "p - q + r \<le> 6" by linarith+
  then show "3 \<le> (a div 4 - (a - 17) div 4) - (a div 100 - (a - 17) div 100) + (a div 400 - (a - 17) div 400)"
    and "(a div 4 - (a - 17) div 4) - (a div 100 - (a - 17) div 100) + (a div 400 - (a - 17) div 400) \<le> 6"
    unfolding p_def q_def r_def by blast+
qed

lemma leap_days_18:
  fixes a :: int
  shows "3 \<le> (a div 4 - (a - 18) div 4) - (a div 100 - (a - 18) div 100) + (a div 400 - (a - 18) div 400)"
    and "(a div 4 - (a - 18) div 4) - (a div 100 - (a - 18) div 100) + (a div 400 - (a - 18) div 400) \<le> 6"
proof -
  define p where "p = a div 4 - (a - 18) div 4"
  define q where "q = a div 100 - (a - 18) div 100"
  define r where "r = a div 400 - (a - 18) div 400"
  have p: "4 \<le> p \<and> p \<le> 5" unfolding p_def by linarith
  have q: "0 \<le> q \<and> q \<le> 1" unfolding q_def by linarith
  have r: "0 \<le> r \<and> r \<le> 1" unfolding r_def by linarith
  from p q r have "3 \<le> p - q + r" "p - q + r \<le> 6" by linarith+
  then show "3 \<le> (a div 4 - (a - 18) div 4) - (a div 100 - (a - 18) div 100) + (a div 400 - (a - 18) div 400)"
    and "(a div 4 - (a - 18) div 4) - (a div 100 - (a - 18) div 100) + (a div 400 - (a - 18) div 400) \<le> 6"
    unfolding p_def q_def r_def by blast+
qed

lemma days_17_years:
  "6208 \<le> days_from_civil y m d - days_from_civil (y - 17) m d"
  "days_from_civil y m d - days_from_civil (y - 17) m d \<le> 6211"
  using leap_days_17 [of "if m \<le> 2 then y - 1 else y"]
  by (simp_all only: days_from_civil_shift)

lemma days_18_years:
  "6573 \<le> days_from_civil y m d - days_from_civil (y - 18) m d"
  "days_from_civil y m d - days_from_civil (y - 18) m d \<le> 6576"
  using leap_days_18 [of "if m \<le> 2 then y - 1 else y"]
  by (simp_all only: days_from_civil_shift)

lemma bucket_of_0: "0 \<le> v \<Longrightarrow> v < 18 \<Longrightarrow> bucket_of boundaries v = Lower 0"
  by (simp add: boundaries_def)

lemma bucket_of_18: "18 \<le> v \<Longrightarrow> v < 30 \<Longrightarrow> bucket_of boundaries v = Lower 18"
  by (simp add: boundaries_def)

lemma age_17_years:
  assumes "0 \<le> t" "t < ms_per_day"
  shows "16 \<le> age (utc_midnight y m d + t) (utc_midnight (y - 17) m d)"
    and "age (utc_midnight y m d + t) (utc_midnight (y - 17) m d) \<le> 17"
proof -
  define D where "D = days_from_civil y m d - days_from_civil (y - 17) m d"
  have D: "6208 \<le> D" "D \<le> 6211"
    using days_17_years [of y m d] by (simp_all add: D_def)
  have eq: "utc_midnight y m d + t - utc_midnight (y - 17) m d = D * 86400000 + t"
    by (simp add: utc_midnight_def ms_per_day_def D_def algebra_simps)
  have t: "0 \<le> t" "t < 86400000"
    using assms by (simp_all add: ms_per_day_def)
  show "16 \<le> age (utc_midnight y m d + t) (utc_midnight (y - 17) m d)"
    unfolding age_def eq ms_per_year_def using D t by linarith
  show "age (utc_midnight y m d + t) (utc_midnight (y - 17) m d) \<le> 17"
    unfolding age_def eq ms_per_year_def using D t by linarith
qed

lemma age_18_years:
  assumes "0 \<le> t" "t < ms_per_day"
  shows "17 \<le> age (utc_midnight y m d + t) (utc_midnight (y - 18) m d)"
    and "age (utc_midnight y m d + t) (utc_midnight (y - 18) m d) \<le> 18"
proof -
  define D where "D = days_from_civil y m d - days_from_civil (y - 18) m d"
  have D: "6573 \<le> D" "D \<le> 6576"
    using days_18_years [of y m d] by (simp_all add: D_def)
  have eq: "utc_midnight y m d + t - utc_midnight (y - 18) m d = D * 86400000 + t"
    by (simp add: utc_midnight_def ms_per_day_def D_def algebra_simps)
  have t: "0 \<le> t" "t < 86400000"
    using assms by (simp_all add: ms_per_day_def)
  show "17 \<le> age (utc_midnight y m d + t) (utc_midnight (y - 18) m d)"
    unfolding age_def eq ms_per_year_def using D t by linarith
  show "age (utc_midnight y m d + t) (utc_midnight (y - 18) m d) \<le> 18"
    unfolding age_def eq ms_per_year_def using D t by linarith
qed

lemma age_ge_18_iff: "18 \<le> age today d0 \<longleftrightarrow> 18 * ms_per_year \<le> today - d0"
  unfolding age_def ms_per_year_def by linarith


lemma count_list_map_filter: "count_list (map f xs) b = length (filter (\<lambda>v. f v = b) xs)"
  by (induction xs) auto

lemma bucket_of_candidates: "bucket_of boundaries v \<in> set (map Lower (butlast boundaries) @ [Other])"
  by (simp add: boundaries_def)

lemma nonempty_groups:
  "b \<in> set cs \<Longrightarrow> 0 < c b \<Longrightarrow>
   (b, c b) \<in> set (filter (\<lambda>g. snd g > 0) (map (\<lambda>b. (b, c b)) cs))"
  by auto

text \<open>Every record of the store is counted in the bucket of its age.\<close>

lemma counted_in_age_bucket:
  assumes "u \<in> set st"
  shows "counted_in today st u (age_bucket today (dob u))"
proof -
  let ?b = "age_bucket today (dob u)"
  let ?n = "length (filter (\<lambda>v. age_bucket today (dob v) = ?b) st)"
  have "u \<in> set (filter (\<lambda>v. age_bucket today (dob v) = ?b) st)"
    using assms by simp
  then have pos: "0 < ?n"
    by (metis length_pos_if_in_set)
  have cand: "?b \<in> set (map Lower (butlast boundaries) @ [Other])"
    unfolding age_bucket_def by (rule bucket_of_candidates)
  have "(?b, ?n) \<in> set (ageDistributionAgg today st)"
    unfolding ageDistributionAgg_def Let_def count_list_map_filter
    using pos cand by (intro nonempty_groups) simp_all
  with assms show ?thesis
    by (simp add: counted_in_def)
qed

subsection \<open>The age buckets of the dashboard\<close>

text \<open>
  C4, as stated, puts every record whose date of birth is exactly 18 years before today
  into the bucket \<open>[18, 30)\<close>. Under the formula of lines 499 to 506 that fails: on
  2026-11-03 at 00:00 UTC a record born on 2008-11-03 is 6574 days old, which is less than
  \<open>18 * 365.25 = 6574.5\<close> days, so its age is 17 and the histogram of a store with this one
  record is the single group \<open>[0, 18)\<close> with the count 1.
\<close>

theorem age_18_counterexample:
  "valid_date 2026 11 3 \<and> valid_date (2026 - 18) 11 3 \<and>
   age (utc_midnight 2026 11 3) (utc_midnight (2026 - 18) 11 3) = 17 \<and>
   ageDistributionAgg (utc_midnight 2026 11 3) [born (2026 - 18) 11 3] = [(Lower 0, 1)] \<and>
   \<not> counted_in (utc_midnight 2026 11 3) [born (2026 - 18) 11 3] (born (2026 - 18) 11 3) (Lower 18)"
  by code_simp

text \<open>
  C4, amended. Let today be any instant of the calendar day \<open>y-m-d\<close> (UTC), and let the date
  of birth of a record of the store be the start of the day \<open>(y - 17)-m-d\<close>, or of the day
  \<open>(y - 18)-m-d\<close>. Under the formula \<open>age = floor((today - dob) / 365.25 days)\<close> and the
  boundaries \<open>[0, 18, 30, 45, 60, 120]\<close>:
  \<^item> the record born exactly 17 years before today is counted in the bucket \<open>[0, 18)\<close>;
  \<^item> the record born exactly 18 years before today is counted in the bucket \<open>[18, 30)\<close>
    when at least \<open>18 * 365.25\<close> days (6574.5 days) have passed since its date of birth,
    and in the bucket \<open>[0, 18)\<close> otherwise.
\<close>

theorem age_buckets_17_18:
  assumes "u \<in> set st" and "valid_date y m d" and "0 \<le> t" and "t < ms_per_day"
  shows
    "(valid_date (y - 17) m d \<and> dob u = utc_midnight (y - 17) m d \<longrightarrow>
        counted_in (utc_midnight y m d + t) st u (Lower 0)) \<and>
     (valid_date (y - 18) m d \<and> dob u = utc_midnight (y - 18) m d \<longrightarrow>
        counted_in (utc_midnight y m d + t) st u
          (if 18 * ms_per_year \<le> utc_midnight y m d + t - dob u then Lower 18 else Lower 0))"
proof -
  have b17: "age_bucket (utc_midnight y m d + t) (utc_midnight (y - 17) m d) = Lower 0"
    unfolding age_bucket_def
    using age_17_years [OF assms(3,4), of y m d] by (intro bucket_of_0) linarith+
  have b18: "age_bucket (utc_midnight y m d + t) (utc_midnight (y - 18) m d) =
               (if 18 * ms_per_year \<le> utc_midnight y m d + t - utc_midnight (y - 18) m d
                then Lower 18 else Lower 0)"
  proof (cases "18 * ms_per_year \<le> utc_midnight y m d + t - utc_midnight (y - 18) m d")
    case True
    then have "18 \<le> age (utc_midnight y m d + t) (utc_midnight (y - 18) m d)"
      by (simp add: age_ge_18_iff)
    with age_18_years(2) [OF assms(3,4), of y m d] True show ?thesis
      unfolding age_bucket_def by (simp add: bucket_of_18)
  next
    case False
    then have "\<not> 18 \<le> age (utc_midnight y m d + t) (utc_midnight (y - 18) m d)"
      by (simp add: age_ge_18_iff)
    with age_18_years(1) [OF assms(3,4), of y m d] False show ?thesis
      unfolding age_bucket_def by (simp add: bucket_of_0)
  qed
  show ?thesis
    using counted_in_age_bucket [OF assms(1), of "utc_midnight y m d + t"] b17 b18
    by auto
qed

theorem age_buckets_17_18_witness:
  "born 2009 2 1 \<in> set [born 2009 2 1, born 2008 2 1] \<and>
   born 2008 2 1 \<in> set [born 2009 2 1, born 2008 2 1] \<and>
   valid_date 2026 2 1 \<and> valid_date 2009 2 1 \<and> valid_date 2008 2 1 \<and>
   counted_in (utc_midnight 2026 2 1) [born 2009 2 1, born 2008 2 1] (born 2009 2 1) (Lower 0) \<and>
   counted_in (utc_midnight 2026 2 1) [born 2009 2 1, born 2008 2 1] (born 2008 2 1) (Lower 18)"
proof -
  let ?st = "[born 2009 2 1, born 2008 2 1]"
  have m17: "born 2009 2 1 \<in> set ?st" and m18: "born 2008 2 1 \<in> set ?st"
    by simp_all
  have today: "valid_date 2026 2 1"
    by code_simp
  have t: "(0::int) \<le> 0" "0 < ms_per_day"
    by (simp_all add: ms_per_day_def)
  have d17: "valid_date (2026 - 17) 2 1 \<and> dob (born 2009 2 1) = utc_midnight (2026 - 17) 2 1"
    by code_simp
  have d18: "valid_date (2026 - 18) 2 1 \<and> dob (born 2008 2 1) = utc_midnight (2026 - 18) 2 1"
    by code_simp
  have old: "18 * ms_per_year \<le> utc_midnight 2026 2 1 + 0 - dob (born 2008 2 1)"
    by code_simp
  from age_buckets_17_18 [OF m17 today t] d17
  have c17: "counted_in (utc_midnight 2026 2 1 + 0) ?st (born 2009 2 1) (Lower 0)"
    by blast
  from age_buckets_17_18 [OF m18 today t] d18
  have "counted_in (utc_midnight 2026 2 1 + 0) ?st (born 2008 2 1)
          (if 18 * ms_per_year \<le> utc_midnight 2026 2 1 + 0 - dob (born 2008 2 1)
           then Lower 18 else Lower 0)"
    by blast
  with old have c18: "counted_in (utc_midnight 2026 2 1 + 0) ?st (born 2008 2 1) (Lower 18)"
    by (simp only: if_True)
  from d17 d18 have v: "valid_date 2009 2 1" "valid_date 2008 2 1"
    by simp_all
  from m17 m18 today v c17 c18 show ?thesis
    by simp
qed

subsection \<open>Auxiliary facts about updates\<close>

lemma find_replace:
  "find (\<lambda>v. uid v = k) st = Some u \<Longrightarrow> uid u' = k \<Longrightarrow>
   find (\<lambda>v. uid v = k) (map (\<lambda>v. if uid v = k then u' else v) st) = Some u'"
  by (induction st) (auto split: if_splits)

lemma find_uid: "find (\<lambda>v. uid v = k) st = Some u \<Longrightarrow> uid u = k"
  by (auto simp: find_Some_iff)

lemma apply_update_uid [simp]: "uid (apply_update e upd u) = uid u"
  by (simp add: apply_update_def)

lemma findByIdAndUpdate_Some:
  assumes "findByIdAndUpdate e st i upd rv = Inr (st', r)"
  shows "\<exists>k. i = Some k \<and> upd_dob upd \<noteq> Some None \<and>
           (case find (\<lambda>v. uid v = k) st of
              None \<Rightarrow> r = None \<and> st' = st
            | Some u \<Rightarrow> r = Some (apply_update e upd u) \<and>
                        st' = map (\<lambda>v. if uid v = k then apply_update e upd u else v) st)"
  using assms
  by (auto simp: findByIdAndUpdate_def Let_def split: option.splits if_splits)

lemma optional_errors_Nil:
  assumes "optional_errors e b = []"
  shows "\<forall>x. body_name b = Some x \<longrightarrow> trim x \<noteq> []"
    and "\<forall>x. body_contact b = Some x \<longrightarrow> x \<noteq> []"
    and "\<forall>x. body_state b = Some x \<longrightarrow> trim x \<noteq> []"
    and "\<forall>x. body_country b = Some x \<longrightarrow> trim x \<noteq> []"
  using assms
  by (auto simp: optional_errors_def optional_fails_def fails_def ten_digits_def
        split: option.splits if_splits)

lemma put_api_user_success:
  assumes "put_api_user e i b st = (st', JsonUser 200 u')"
  shows "optional_errors e b = [] \<and>
         findByIdAndUpdate e st i (put_updateData e (sanitize b)) False = Inr (st', Some u')"
  using assms
  by (auto simp: put_api_user_def split: list.splits sum.splits option.splits)

lemma update_errors_gateway: "update_errors (e \<lparr> gateway := g \<rparr>) upd = update_errors e upd"
  by (simp add: update_errors_def check_dob_value_def dob_in_range_def split: option.splits)

lemma apply_update_gateway: "apply_update (e \<lparr> gateway := g \<rparr>) upd u = apply_update e upd u"
  by (simp add: apply_update_def)

lemma findByIdAndUpdate_gateway:
  "findByIdAndUpdate (e \<lparr> gateway := g \<rparr>) st i upd rv = findByIdAndUpdate e st i upd rv"
  by (simp add: findByIdAndUpdate_def update_errors_gateway apply_update_gateway
        cong: option.case_cong if_cong)

lemma optional_errors_gateway: "optional_errors (e \<lparr> gateway := g \<rparr>) b = optional_errors e b"
  by (simp add: optional_errors_def)

lemma put_updateData_gateway: "put_updateData (e \<lparr> gateway := g \<rparr>) b = put_updateData e b"
  by (simp add: put_updateData_def)

lemma put_api_user_gateway: "put_api_user (e \<lparr> gateway := g \<rparr>) i b st = put_api_user e i b st"
  by (simp add: put_api_user_def optional_errors_gateway put_updateData_gateway
        findByIdAndUpdate_gateway cong: list.case_cong)

lemma put_frame:
  assumes "put_api_user e i b st = (st', JsonUser 200 u')"
  shows "\<exists>k u. i = Some k \<and> find (\<lambda>v. uid v = k) st = Some u \<and>
           st' = map (\<lambda>v. if uid v = k then u' else v) st \<and>
           validationStatus u' = validationStatus u \<and> uid u' = uid u \<and> createdAt u' = createdAt u \<and>
           (body_name b = None \<longrightarrow> name u' = name u) \<and>
           (body_email b = None \<longrightarrow> email u' = email u) \<and>
           (body_dob b = None \<longrightarrow> dob u' = dob u) \<and>
           (body_contact b = None \<longrightarrow> contact u' = contact u) \<and>
           (body_state b = None \<longrightarrow> state u' = state u) \<and>
           (body_country b = None \<longrightarrow> country u' = country u) \<and>
           (\<forall>x. body_name b = Some x \<longrightarrow> name u' = trim x) \<and>
           (\<forall>x. body_email b = Some x \<and> x \<noteq> [] \<longrightarrow> email u' = toLowerCase (trim x)) \<and>
           (\<forall>x. body_dob b = Some x \<and> x \<noteq> [] \<longrightarrow> toDate e x = Some (dob u')) \<and>
           (\<forall>x. body_contact b = Some x \<longrightarrow> contact u' = x) \<and>
           (\<forall>x. body_state b = Some x \<longrightarrow> state u' = trim x) \<and>
           (\<forall>x. body_country b = Some x \<longrightarrow> country u' = trim x)"
proof -
  from put_api_user_success [OF assms]
  have ok: "optional_errors e b = []"
    and upd: "findByIdAndUpdate e st i (put_updateData e (sanitize b)) False = Inr (st', Some u')"
    by simp_all
  from findByIdAndUpdate_Some [OF upd] obtain k u where
    i: "i = Some k" and nd: "upd_dob (put_updateData e (sanitize b)) \<noteq> Some None"
    and f: "find (\<lambda>v. uid v = k) st = Some u"
    and u': "u' = apply_update e (put_updateData e (sanitize b)) u"
    and st': "st' = map (\<lambda>v. if uid v = k then apply_update e (put_updateData e (sanitize b)) u else v) st"
    by (auto split: option.splits)
  note oe = optional_errors_Nil [OF ok]
  have fields:
    "validationStatus u' = validationStatus u" "uid u' = uid u" "createdAt u' = createdAt u"
    "body_name b = None \<longrightarrow> name u' = name u"
    "body_email b = None \<longrightarrow> email u' = email u"
    "body_dob b = None \<longrightarrow> dob u' = dob u"
    "body_contact b = None \<longrightarrow> contact u' = contact u"
    "body_state b = None \<longrightarrow> state u' = state u"
    "body_country b = None \<longrightarrow> country u' = country u"
    by (simp_all add: u' apply_update_def put_updateData_def sanitize_def truthy_def set_path_def)
  have present:
    "\<forall>x. body_name b = Some x \<longrightarrow> name u' = trim x"
    "\<forall>x. body_email b = Some x \<and> x \<noteq> [] \<longrightarrow> email u' = toLowerCase (trim x)"
    "\<forall>x. body_contact b = Some x \<longrightarrow> contact u' = x"
    "\<forall>x. body_state b = Some x \<longrightarrow> state u' = trim x"
    "\<forall>x. body_country b = Some x \<longrightarrow> country u' = trim x"
    using oe
    by (auto simp: u' apply_update_def put_updateData_def sanitize_def truthy_def set_path_def trim_idem)
  have date: "\<forall>x. body_dob b = Some x \<and> x \<noteq> [] \<longrightarrow> toDate e x = Some (dob u')"
  proof (intro allI impI)
    fix x
    assume x: "body_dob b = Some x \<and> x \<noteq> []"
    with nd obtain t where t: "toDate e x = Some t"
      by (auto simp: put_updateData_def sanitize_def truthy_def)
    with x show "toDate e x = Some (dob u')"
      by (simp add: u' apply_update_def put_updateData_def sanitize_def truthy_def)
  qed
  have st'': "st' = map (\<lambda>v. if uid v = k then u' else v) st"
    using st' u' by simp
  show ?thesis
    apply (rule exI [of _ k])
    apply (rule exI [of _ u])
    using i f st'' fields present date apply (intro conjI)
                     apply assumption+
    done
qed


lemma post_update_blocked:
  assumes "submission_errors e b = []" and "find (\<lambda>v. uid v = k) st = Some u"
    and "validateEmail (parseFloat e) (gateway e (field_string (body_email b))) = Inr r"
    and "\<not> isValid r"
  shows "post_update e (Some k) b st = (st, RenderEdit 400 u (Some (message r)))"
  using assms by (simp add: post_update_def findById_def Let_def)

lemma update_write_redirect:
  assumes "find (\<lambda>v. uid v = k) st = Some u"
    and "update_write e (Some k) b st vm = (st2, Redirect ''/users'')"
  shows "\<exists>u2. find (\<lambda>v. uid v = k) st2 = Some u2 \<and> validationStatus u2 = Some vm \<and>
              st2 = map (\<lambda>v. if uid v = k then u2 else v) st"
proof (cases "findByIdAndUpdate e st (Some k) (update_updateData e b vm) True")
  case (Inl err)
  with assms show ?thesis
    by (simp add: update_write_def update_catch_def findById_def)
next
  case (Inr p)
  obtain st' r where p: "p = (st', r)" by (cases p)
  from Inr p assms(2) have st2: "st2 = st'"
    by (simp add: update_write_def)
  from findByIdAndUpdate_Some [OF Inr [unfolded p]] assms(1)
  have r: "st' = map (\<lambda>v. if uid v = k then apply_update e (update_updateData e b vm) u else v) st"
    by simp
  let ?u2 = "apply_update e (update_updateData e b vm) u"
  have "uid ?u2 = k"
    using find_uid [OF assms(1)] by simp
  from find_replace [OF assms(1) this]
  have "find (\<lambda>v. uid v = k) st2 = Some ?u2"
    by (simp add: st2 r)
  moreover have "validationStatus ?u2 = Some vm"
    by (simp add: apply_update_def update_updateData_def)
  moreover have "st2 = map (\<lambda>v. if uid v = k then ?u2 else v) st"
    by (simp add: st2 r)
  ultimately show ?thesis by blast
qed

lemma post_update_written:
  assumes "submission_errors e b = []" and "find (\<lambda>v. uid v = k) st = Some u"
    and "post_update e (Some k) b st = (st2, Redirect ''/users'')"
  shows "\<exists>u2. find (\<lambda>v. uid v = k) st2 = Some u2 \<and>
              validationStatus u2 =
                Some (case validateEmail (parseFloat e) (gateway e (field_string (body_email b))) of
                        Inr r \<Rightarrow> message r
                      | Inl err \<Rightarrow> ''Validation unavailable'') \<and>
              st2 = map (\<lambda>v. if uid v = k then u2 else v) st"
proof (cases "validateEmail (parseFloat e) (gateway e (field_string (body_email b)))")
  case (Inl err)
  with assms have "update_write e (Some k) (sanitize b) st ''Validation unavailable''
                     = (st2, Redirect ''/users'')"
    by (simp add: post_update_def findById_def Let_def)
  from update_write_redirect [OF assms(2) this] Inl show ?thesis by simp
next
  case (Inr r)
  with assms have "update_write e (Some k) (sanitize b) st (message r) = (st2, Redirect ''/users'')"
    by (simp add: post_update_def findById_def Let_def split: if_splits)
  from update_write_redirect [OF assms(2) this] Inr show ?thesis by simp
qed

subsection \<open>The two update paths\<close>

text \<open>
  C9. A successful \<open>PUT /api/users/:id\<close> (answer 200 with the record \<open>u'\<close>) replaces the
  record \<open>u\<close> with that id and no other. Of the fields name, email, dob, contact, state and
  country, each one that is absent from the request body keeps its value, and each one that
  is present takes the value of the body (after the setters of the schema);
  \<open>validationStatus\<close>, the id and \<open>createdAt\<close> keep their values. The outcome does not depend
  on the gateway: the route makes no gateway call.

  \<open>POST /update/:id\<close> for an existing record and a body that passes the field validation
  runs the gateway check: a verdict \<open>invalid\<close> blocks the update (the store is unchanged and
  the edit form is rendered with the gateway's message); whenever the update is written
  (redirect to \<open>/users\<close>), the record's \<open>validationStatus\<close> is rewritten to the gateway's
  message, or to \<open>Validation unavailable\<close> when the gateway call failed.
\<close>

theorem update_paths:
  "(put_api_user e i b st = (st', JsonUser 200 u') \<longrightarrow>
      (\<exists>k u. i = Some k \<and> find (\<lambda>v. uid v = k) st = Some u \<and>
           st' = map (\<lambda>v. if uid v = k then u' else v) st \<and>
           validationStatus u' = validationStatus u \<and> uid u' = uid u \<and> createdAt u' = createdAt u \<and>
           (body_name b = None \<longrightarrow> name u' = name u) \<and>
           (body_email b = None \<longrightarrow> email u' = email u) \<and>
           (body_dob b = None \<longrightarrow> dob u' = dob u) \<and>
           (body_contact b = None \<longrightarrow> contact u' = contact u) \<and>
           (body_state b = None \<longrightarrow> state u' = state u) \<and>
           (body_country b = None \<longrightarrow> country u' = country u) \<and>
           (\<forall>x. body_name b = Some x \<longrightarrow> name u' = trim x) \<and>
           (\<forall>x. body_email b = Some x \<and> x \<noteq> [] \<longrightarrow> email u' = toLowerCase (trim x)) \<and>
           (\<forall>x. body_dob b = Some x \<and> x \<noteq> [] \<longrightarrow> toDate e x = Some (dob u')) \<and>
           (\<forall>x. body_contact b = Some x \<longrightarrow> contact u' = x) \<and>
           (\<forall>x. body_state b = Some x \<longrightarrow> state u' = trim x) \<and>
           (\<forall>x. body_country b = Some x \<longrightarrow> country u' = trim x))) \<and>
   put_api_user (e \<lparr> gateway := g \<rparr>) i b st = put_api_user e i b st \<and>
   (submission_errors e c = [] \<and> find (\<lambda>v. uid v = j) st = Some w \<longrightarrow>
      (\<forall>r. validateEmail (parseFloat e) (gateway e (field_string (body_email c))) = Inr r \<and>
            \<not> isValid r \<longrightarrow>
         post_update e (Some j) c st = (st, RenderEdit 400 w (Some (message r)))) \<and>
      (\<forall>st2. post_update e (Some j) c st = (st2, Redirect ''/users'') \<longrightarrow>
         (\<exists>w2. find (\<lambda>v. uid v = j) st2 = Some w2 \<and>
               validationStatus w2 =
                 Some (case validateEmail (parseFloat e) (gateway e (field_string (body_email c))) of
                         Inr r \<Rightarrow> message r
                       | Inl err \<Rightarrow> ''Validation unavailable'') \<and>
               st2 = map (\<lambda>v. if uid v = j then w2 else v) st)))"
  apply (intro conjI impI allI)
     apply (erule put_frame)
    apply (rule put_api_user_gateway)
   apply (erule conjE)+
   apply (erule (3) post_update_blocked)
  apply (erule conjE)
  apply (erule (2) post_update_written)
  done


theorem update_paths_witness:
  "put_api_user sample_env (Some 1) rename_body [sample_user 1 ''ada@example.com'']
     = ([(sample_user 1 ''ada@example.com'') \<lparr> name := ''Grace'', updatedAt := 1793664000000 \<rparr>],
        JsonUser 200
          ((sample_user 1 ''ada@example.com'') \<lparr> name := ''Grace'', updatedAt := 1793664000000 \<rparr>)) \<and>
   validationStatus
     ((sample_user 1 ''ada@example.com'') \<lparr> name := ''Grace'', updatedAt := 1793664000000 \<rparr>)
     = validationStatus (sample_user 1 ''ada@example.com'') \<and>
   submission_errors undeliverable_env sample_body = [] \<and>
   find (\<lambda>v. uid v = 1) [sample_user 1 ''ada@example.com''] = Some (sample_user 1 ''ada@example.com'') \<and>
   post_update undeliverable_env (Some 1) sample_body [sample_user 1 ''ada@example.com'']
     = ([sample_user 1 ''ada@example.com''],
        RenderEdit 400 (sample_user 1 ''ada@example.com'')
          (Some ''Email undeliverable (Quality: 0.40)'')) \<and>
   post_update sample_env (Some 1) sample_body [sample_user 1 ''ada@example.com'']
     = ([(sample_user 1 ''ada@example.com'')
           \<lparr> updatedAt := 1793664000000, validationStatus := Some ''Validation unavailable'' \<rparr>],
        Redirect ''/users'')"
proof -
  let ?ada = "sample_user 1 ''ada@example.com''"
  let ?grace = "?ada \<lparr> name := ''Grace'', updatedAt := 1793664000000 \<rparr>"
  let ?r = "\<lparr> isValid = False, message = ''Email undeliverable (Quality: 0.40)'' \<rparr>"
  have put_run: "put_api_user sample_env (Some 1) rename_body [?ada] = ([?grace], JsonUser 200 ?grace)"
    by code_simp
  have found: "find (\<lambda>v. uid v = 1) [?ada] = Some ?ada"
    by code_simp
  have pass: "submission_errors undeliverable_env sample_body = []"
    by code_simp
  have verdict: "validateEmail (parseFloat undeliverable_env)
                   (gateway undeliverable_env (field_string (body_email sample_body))) = Inr ?r"
    by code_simp
  have written: "post_update sample_env (Some 1) sample_body [?ada]
     = ([?ada \<lparr> updatedAt := 1793664000000, validationStatus := Some ''Validation unavailable'' \<rparr>],
        Redirect ''/users'')"
    by code_simp
  note put = update_paths [of sample_env "Some 1" rename_body "[?ada]" "[?grace]" ?grace
      "gateway sample_env" sample_body 1 ?ada]
  note upd = update_paths [of undeliverable_env "Some 1" rename_body "[?ada]" "[?grace]" ?grace
      "gateway sample_env" sample_body 1 ?ada]
  from put put_run obtain k u where
    "Some (1::nat) = Some k" and "find (\<lambda>v. uid v = k) [?ada] = Some u"
    and "validationStatus ?grace = validationStatus u"
    by blast
  with found have kept: "validationStatus ?grace = validationStatus ?ada"
    by simp
  have "\<not> isValid ?r"
    by simp
  with upd pass found verdict
  have "post_update undeliverable_env (Some 1) sample_body [?ada]
          = ([?ada], RenderEdit 400 ?ada (Some (message ?r)))"
    by blast
  then have blocked: "post_update undeliverable_env (Some 1) sample_body [?ada]
          = ([?ada], RenderEdit 400 ?ada (Some ''Email undeliverable (Quality: 0.40)''))"
    by simp
  from put_run kept pass found blocked written show ?thesis
    by (intro conjI)
qed

end
